theory Spec2Isabelle
  imports Complex_Main "HOL-Library.Product_Lexorder" "HOL-Library.Multiset"
    "HOL-Library.Log_Nat"
begin

section \<open>Data model\<close>

text \<open>
  The Python classes of \<^verbatim>\<open>vehicle.py\<close>, \<^verbatim>\<open>users.py\<close> and \<^verbatim>\<open>ride.py\<close> as records.
  A rate and a distance are Python numbers, an \<^verbatim>\<open>int\<close> or a \<^verbatim>\<open>float\<close>, and the
  arithmetic on them is Python's: exact on two \<^verbatim>\<open>int\<close>s, rounded to the nearest
  double as soon as a \<^verbatim>\<open>float\<close> takes part. A \<^verbatim>\<open>float\<close> is a finite double, given
  by its exact rational value; the infinities and NaN are outside the model. Wallets,
  fares and average ratings are held by their exact values; an average rating is
  computed in double arithmetic, the single \<^verbatim>\<open>-=\<close> and \<^verbatim>\<open>+=\<close> on a wallet exactly.
  Counters that start at 0 and are only ever incremented (\<^verbatim>\<open>total_rides\<close>,
  \<^verbatim>\<open>total_ratings\<close>) are natural numbers. Console output (\<^verbatim>\<open>print\<close>) is not part of
  the model.

  Objects are mutable and shared in Python: a ride refers to its rider and its driver,
  a rider to the current ride and to the rides of the history. The model keeps the
  objects of each class in a list and a reference is an index into that list.
\<close>

type_synonym rider_ref = nat
type_synonym driver_ref = nat
type_synonym ride_ref = nat
type_synonym timestamp = nat

text \<open>Exceptions that the modelled code can raise.\<close>

datatype exn = AttributeError | TypeError | ValueError

text \<open>A Python number: an \<^verbatim>\<open>int\<close>, or a \<^verbatim>\<open>float\<close> given by the value of the double.\<close>

datatype number = PyInt int | PyFloat rat

text \<open>\<^verbatim>\<open>class Vehicle\<close>; the subclasses \<^verbatim>\<open>Car\<close>, \<^verbatim>\<open>Bike\<close>, \<^verbatim>\<open>CNG\<close> add \<^verbatim>\<open>capacity\<close>.\<close>

record vehicle =
  vehicle_type :: string
  license_plate :: string
  rate :: number
  status :: string
  capacity :: nat

definition Car :: "string \<Rightarrow> number \<Rightarrow> vehicle" where
  "Car plate r = \<lparr>vehicle_type = ''car'', license_plate = plate, rate = r,
     status = ''available'', capacity = 4\<rparr>"

definition Bike :: "string \<Rightarrow> number \<Rightarrow> vehicle" where
  "Bike plate r = \<lparr>vehicle_type = ''bike'', license_plate = plate, rate = r,
     status = ''available'', capacity = 2\<rparr>"

definition CNG :: "string \<Rightarrow> number \<Rightarrow> vehicle" where
  "CNG plate r = \<lparr>vehicle_type = ''cng'', license_plate = plate, rate = r,
     status = ''available'', capacity = 3\<rparr>"

text \<open>\<^verbatim>\<open>class User\<close> and its two subclasses.\<close>

record user =
  name :: string
  email :: string
  nid :: string
  wallet :: rat

record rider = user +
  current_ride :: "ride_ref option"
  current_location :: string
  ride_history :: "ride_ref list"
  average_rating :: rat
  total_ratings :: nat

record driver = user +
  current_location :: string
  vehicle :: "vehicle option"
  total_rides :: nat
  is_available :: bool
  ride_history :: "ride_ref list"
  average_rating :: rat
  total_ratings :: nat

text \<open>\<^verbatim>\<open>class RideRequest\<close> and \<^verbatim>\<open>class Ride\<close>.\<close>

record RideRequest =
  rider :: rider_ref
  end_location :: string

record ride =
  start_location :: string
  end_location :: string
  driver :: "driver_ref option"
  rider :: "rider_ref option"
  start_time :: "timestamp option"
  end_time :: "timestamp option"
  vehicle :: "vehicle option"
  distance :: number
  estimated_fare :: rat
  is_completed :: bool
  is_cancelled :: bool
  cancellation_fee :: rat
  rating :: "int option"

text \<open>
  \<^verbatim>\<open>class RideSharing\<close>, and the whole object graph: the company with its registered
  riders and drivers, together with every \<^verbatim>\<open>Ride\<close> object created so far.
\<close>

record RideSharing =
  company_name :: string
  riders :: "rider list"
  drivers :: "driver list"
  total_rides :: nat

record world = RideSharing +
  rides :: "ride list"

text \<open>
  The result of a method call: it returns a value or raises, and in both cases the
  mutations made up to that point stay in the object graph.
\<close>

datatype 'a outcome = Returns 'a world | Raises exn world

section \<open>Fare and ride construction\<close>

text \<open>Rounding to the nearest integer, a tie going to the even one.\<close>

definition round_half_even :: "rat \<Rightarrow> int" where
  "round_half_even y =
     (let f = \<lfloor>y\<rfloor>; r = y - of_int f
      in if r < 1 / 2 then f
         else if 1 / 2 < r then f + 1
         else if even f then f else f + 1)"

text \<open>
  The binary exponent of a non-zero value: the \<open>e\<close> with \<open>2\<^sup>e \<le> |x| < 2\<^sup>e\<^sup>+\<^sup>1\<close>.
\<close>

definition ilog2 :: "rat \<Rightarrow> int" where
  "ilog2 x =
     (let a = \<bar>x\<bar>
      in if 1 \<le> a then bitlen \<lfloor>a\<rfloor> - 1
         else - bitlen (\<lceil>1 / a\<rceil> - 1))"

text \<open>
  Rounding of an exact value to the nearest double (IEEE 754 binary64, ties to even):
  a significand of 53 bits, and below \<open>2\<^sup>-\<^sup>1\<^sup>0\<^sup>2\<^sup>2\<close> the fixed spacing \<open>2\<^sup>-\<^sup>1\<^sup>0\<^sup>7\<^sup>4\<close> of
  the subnormal numbers. It is the result of every arithmetic operation of Python on
  \<^verbatim>\<open>float\<close>s, as long as the result is finite: a result of magnitude \<open>2\<^sup>1\<^sup>0\<^sup>2\<^sup>4\<close> or
  more is an infinity in Python and has no counterpart here.
\<close>

definition fl :: "rat \<Rightarrow> rat" where
  "fl x =
     (if x = 0 then 0
      else (let u = max (ilog2 x - 52) (- 1074)
            in of_int (round_half_even (x / 2 powi u)) * 2 powi u))"

text \<open>The exact value of a number, and its conversion to \<^verbatim>\<open>float\<close>.\<close>

fun val :: "number \<Rightarrow> rat" where
  "val (PyInt n) = of_int n"
| "val (PyFloat x) = x"

fun to_float :: "number \<Rightarrow> rat" where
  "to_float (PyInt n) = fl (of_int n)"
| "to_float (PyFloat x) = x"

text \<open>
  Python's \<^verbatim>\<open>*\<close> and \<^verbatim>\<open>+\<close>: exact on two \<^verbatim>\<open>int\<close>s; otherwise both operands are
  converted to \<^verbatim>\<open>float\<close> and the result is rounded.
\<close>

fun num_mul :: "number \<Rightarrow> number \<Rightarrow> number" where
  "num_mul (PyInt a) (PyInt b) = PyInt (a * b)"
| "num_mul a b = PyFloat (fl (to_float a * to_float b))"

fun num_add :: "number \<Rightarrow> number \<Rightarrow> number" where
  "num_add (PyInt a) (PyInt b) = PyInt (a + b)"
| "num_add a b = PyFloat (fl (to_float a + to_float b))"

text \<open>The nearest multiple of 1/100 of an exact value, a tie going to the even one.\<close>

definition hundredths :: "rat \<Rightarrow> rat" where
  "hundredths x = of_int (round_half_even (x * 100)) / 100"

text \<open>
  Python's \<^verbatim>\<open>round(x, 2)\<close>. On an \<^verbatim>\<open>int\<close> it returns the argument. On a \<^verbatim>\<open>float\<close> it
  rounds the exact value of the double to two decimals correctly and returns the
  double nearest to that decimal.
\<close>

fun py_round2 :: "number \<Rightarrow> number" where
  "py_round2 (PyInt n) = PyInt n"
| "py_round2 (PyFloat x) = PyFloat (fl (hundredths x))"

text \<open>
  \<^verbatim>\<open>random.randint(a, b)\<close> returns an integer \<open>N\<close> with \<open>a \<le> N \<le> b\<close>. The source of
  randomness is an explicit argument.
\<close>

definition randint :: "int \<Rightarrow> int \<Rightarrow> nat \<Rightarrow> int" where
  "randint a b entropy = a + int (entropy mod nat (b - a + 1))"

text \<open>
  Truth value of an optional number: \<^verbatim>\<open>None\<close>, \<^verbatim>\<open>0\<close> and \<^verbatim>\<open>0.0\<close> are falsy.
\<close>

fun truthy :: "number option \<Rightarrow> bool" where
  "truthy None = False"
| "truthy (Some x) = (val x \<noteq> 0)"

definition CANCELLATION_FEE :: rat where
  "CANCELLATION_FEE = 20"

text \<open>
  \<^verbatim>\<open>Ride.calculate_fare\<close> reads \<^verbatim>\<open>self.distance\<close> and \<^verbatim>\<open>self.vehicle.rate\<close>; the
  attribute access on \<^verbatim>\<open>None\<close> raises.
\<close>

definition calculate_fare :: "vehicle option \<Rightarrow> number \<Rightarrow> exn + number" where
  "calculate_fare veh km =
     (case veh of
        None \<Rightarrow> Inl AttributeError
      | Some v \<Rightarrow> (let base_fare = PyInt 50; fare = num_add base_fare (num_mul km (rate v))
                  in Inr (py_round2 fare)))"

text \<open>
  \<^verbatim>\<open>Ride.__init__(start_location, end_location, vehicle, distance=None)\<close>. The record
  keeps the value of the fare.
\<close>

definition Ride_init ::
  "string \<Rightarrow> string \<Rightarrow> vehicle option \<Rightarrow> number option \<Rightarrow> nat \<Rightarrow> exn + ride" where
  "Ride_init start_loc end_loc veh km entropy =
     (let d = (if truthy km then the km else PyInt (randint 5 25 entropy))
      in case calculate_fare veh d of
           Inl e \<Rightarrow> Inl e
         | Inr fare \<Rightarrow> Inr \<lparr>start_location = start_loc, end_location = end_loc,
              driver = None, rider = None, start_time = None, end_time = None,
              vehicle = veh, distance = d, estimated_fare = val fare,
              is_completed = False, is_cancelled = False,
              cancellation_fee = CANCELLATION_FEE, rating = None\<rparr>)"

section \<open>Object construction\<close>

text \<open>\<^verbatim>\<open>Rider.__init__\<close> and \<^verbatim>\<open>Driver.__init__\<close>.\<close>

definition Rider_init :: "string \<Rightarrow> string \<Rightarrow> string \<Rightarrow> string \<Rightarrow> rat \<Rightarrow> rider" where
  "Rider_init n e i loc initial_amount =
     \<lparr>name = n, email = e, nid = i, wallet = initial_amount,
      current_ride = None, current_location = loc, ride_history = [],
      average_rating = 0, total_ratings = 0\<rparr>"

definition Driver_init :: "string \<Rightarrow> string \<Rightarrow> string \<Rightarrow> string \<Rightarrow> vehicle option \<Rightarrow> driver" where
  "Driver_init n e i loc veh =
     \<lparr>name = n, email = e, nid = i, wallet = 0,
      current_location = loc, vehicle = veh, total_rides = 0, is_available = True,
      ride_history = [], average_rating = 0, total_ratings = 0\<rparr>"

section \<open>Mutation through references\<close>

definition upd_ride :: "world \<Rightarrow> ride_ref \<Rightarrow> (ride \<Rightarrow> ride) \<Rightarrow> world" where
  "upd_ride w rd f = w\<lparr>rides := (rides w)[rd := f (rides w ! rd)]\<rparr>"

definition upd_rider :: "world \<Rightarrow> rider_ref \<Rightarrow> (rider \<Rightarrow> rider) \<Rightarrow> world" where
  "upd_rider w p f = w\<lparr>riders := (riders w)[p := f (riders w ! p)]\<rparr>"

definition upd_driver :: "world \<Rightarrow> driver_ref \<Rightarrow> (driver \<Rightarrow> driver) \<Rightarrow> world" where
  "upd_driver w d f = w\<lparr>drivers := (drivers w)[d := f (drivers w ! d)]\<rparr>"

section \<open>Ride lifecycle\<close>

text \<open>\<^verbatim>\<open>Ride.set_driver\<close>, \<^verbatim>\<open>Ride.start_ride\<close> and \<^verbatim>\<open>Driver.accept_ride\<close>.\<close>

definition set_driver :: "world \<Rightarrow> ride_ref \<Rightarrow> driver_ref \<Rightarrow> world" where
  "set_driver w rd d = upd_ride w rd (\<lambda>r. r\<lparr>ride.driver := Some d\<rparr>)"

definition start_ride :: "world \<Rightarrow> ride_ref \<Rightarrow> timestamp \<Rightarrow> world" where
  "start_ride w rd now = upd_ride w rd (\<lambda>r. r\<lparr>start_time := Some now\<rparr>)"

definition accept_ride :: "world \<Rightarrow> driver_ref \<Rightarrow> ride_ref \<Rightarrow> timestamp \<Rightarrow> world" where
  "accept_ride w self rd now =
     (let w1 = start_ride w rd now;
          w2 = set_driver w1 rd self
      in upd_driver w2 self (\<lambda>u. u\<lparr>is_available := False\<rparr>))"

text \<open>
  \<^verbatim>\<open>Ride.end_ride\<close>. There is no check of \<^verbatim>\<open>is_completed\<close> or \<^verbatim>\<open>is_cancelled\<close>. The
  attribute accesses on an unbound rider or driver raise, and so does the subtraction
  of the start time from the end time when the ride was never started.
\<close>

definition end_ride :: "world \<Rightarrow> ride_ref \<Rightarrow> timestamp \<Rightarrow> unit outcome" where
  "end_ride w rd now =
     (let w1 = upd_ride w rd (\<lambda>r. r\<lparr>end_time := Some now, is_completed := True\<rparr>);
          r = rides w1 ! rd
      in case ride.rider r of
           None \<Rightarrow> Raises AttributeError w1
         | Some p \<Rightarrow>
            (let w2 = upd_rider w1 p (\<lambda>u. u\<lparr>wallet := wallet u - estimated_fare r\<rparr>)
             in case ride.driver r of
                  None \<Rightarrow> Raises AttributeError w2
                | Some d \<Rightarrow>
                   (let w3 = upd_driver w2 d (\<lambda>u. u\<lparr>wallet := wallet u + estimated_fare r\<rparr>);
                        w4 = upd_rider w3 p
                               (\<lambda>u. u\<lparr>rider.ride_history := rider.ride_history u @ [rd]\<rparr>);
                        w5 = upd_rider w4 p (\<lambda>u. u\<lparr>current_ride := None\<rparr>)
                    in case start_time r of
                         None \<Rightarrow> Raises TypeError w5
                       | Some t \<Rightarrow> Returns () w5)))"

text \<open>\<^verbatim>\<open>Driver.reach_destination\<close>.\<close>

definition reach_destination :: "world \<Rightarrow> driver_ref \<Rightarrow> ride_ref \<Rightarrow> timestamp \<Rightarrow> unit outcome" where
  "reach_destination w self rd now =
     (case end_ride w rd now of
        Raises e w' \<Rightarrow> Raises e w'
      | Returns _ w' \<Rightarrow>
          Returns () (upd_driver w' self
            (\<lambda>u. u\<lparr>driver.total_rides := driver.total_rides u + 1, is_available := True,
                    driver.ride_history := driver.ride_history u @ [rd]\<rparr>)))"

text \<open>
  \<^verbatim>\<open>Ride.cancel_ride(cancelled_by='rider')\<close>. It returns \<^verbatim>\<open>False\<close> when it refuses and
  falls off its end (\<^verbatim>\<open>None\<close>) when it cancels.
\<close>

definition cancel_ride :: "world \<Rightarrow> ride_ref \<Rightarrow> string \<Rightarrow> timestamp \<Rightarrow> bool option outcome" where
  "cancel_ride w rd cancelled_by now =
     (if is_completed (rides w ! rd) then Returns (Some False) w
      else if is_cancelled (rides w ! rd) then Returns (Some False) w
      else
        (let w1 = upd_ride w rd (\<lambda>r. r\<lparr>is_cancelled := True, end_time := Some now\<rparr>);
             r = rides w1 ! rd;
             release = (\<lambda>w'. case ride.driver r of
                                None \<Rightarrow> w'
                              | Some d \<Rightarrow> upd_driver w' d (\<lambda>u. u\<lparr>is_available := True\<rparr>))
         in if cancelled_by = ''rider'' then
              (case ride.rider r of
                 None \<Rightarrow> Raises AttributeError w1
               | Some p \<Rightarrow>
                  (if cancellation_fee r \<le> wallet (riders w1 ! p) then
                     (let w2 = upd_rider w1 p (\<lambda>u. u\<lparr>wallet := wallet u - cancellation_fee r\<rparr>);
                          w3 = (case ride.driver r of
                                  None \<Rightarrow> w2
                                | Some d \<Rightarrow> upd_driver w2 d
                                    (\<lambda>u. u\<lparr>wallet := wallet u + cancellation_fee r\<rparr>))
                      in Returns None (release w3))
                   else Returns None (release w1)))
            else Returns None (release w1)))"

section \<open>Matching\<close>

text \<open>\<^verbatim>\<open>str.lower\<close> on ASCII text.\<close>

definition lower_char :: "char \<Rightarrow> char" where
  "lower_char c =
     (if 65 \<le> (of_char c :: nat) \<and> (of_char c :: nat) \<le> 90
      then char_of (of_char c + 32 :: nat) else c)"

definition lower :: "string \<Rightarrow> string" where
  "lower s = map lower_char s"

text \<open>
  \<^verbatim>\<open>max(xs, key=f)\<close> on a non-empty list: the running best is replaced only by a
  strictly greater element, so the first maximal element is returned.
\<close>

fun max_from :: "('a \<Rightarrow> 'k::linorder) \<Rightarrow> 'a \<Rightarrow> 'a list \<Rightarrow> 'a" where
  "max_from key best [] = best"
| "max_from key best (x # xs) = max_from key (if key best < key x then x else best) xs"

text \<open>\<^verbatim>\<open>RideMatching.__init__\<close>: the references of the drivers that are available.\<close>

definition RideMatching_init :: "driver list \<Rightarrow> driver_ref list" where
  "RideMatching_init ds = filter (\<lambda>i. is_available (ds ! i)) [0..<length ds]"

text \<open>
  \<^verbatim>\<open>RideMatching.find_driver\<close>, with \<^verbatim>\<open>self.available_drivers\<close> as its second
  argument. The new \<^verbatim>\<open>Ride\<close> object is put at the end of \<^verbatim>\<open>rides\<close>.
\<close>

definition find_driver ::
  "world \<Rightarrow> driver_ref list \<Rightarrow> RideRequest \<Rightarrow> string \<Rightarrow> nat \<Rightarrow> timestamp \<Rightarrow> ride_ref option outcome" where
  "find_driver w available_drivers ride_request vtype entropy now =
     (if available_drivers = [] then Returns None w
      else
        (let suitable_drivers = filter
               (\<lambda>i. case driver.vehicle (drivers w ! i) of
                       None \<Rightarrow> False
                     | Some v \<Rightarrow> vehicle_type v = lower vtype) available_drivers
         in case suitable_drivers of
              [] \<Rightarrow> Returns None w
            | i # rest \<Rightarrow>
               (let best_driver = max_from (\<lambda>j. driver.average_rating (drivers w ! j)) i rest
                in case Ride_init
                          (rider.current_location (riders w ! RideRequest.rider ride_request))
                          (RideRequest.end_location ride_request)
                          (driver.vehicle (drivers w ! best_driver)) None entropy of
                     Inl e \<Rightarrow> Raises e w
                   | Inr r \<Rightarrow>
                      (let rd = length (rides w);
                           w1 = w\<lparr>rides := rides w @ [r]\<rparr>
                       in Returns (Some rd) (accept_ride w1 best_driver rd now)))))"

text \<open>
  \<^verbatim>\<open>Rider.request_ride\<close>. The \<^verbatim>\<open>except Exception\<close> clause turns every exception into
  the result \<^verbatim>\<open>None\<close>.
\<close>

definition request_ride ::
  "world \<Rightarrow> rider_ref \<Rightarrow> string \<Rightarrow> string \<Rightarrow> nat \<Rightarrow> timestamp \<Rightarrow> ride_ref option outcome" where
  "request_ride w self destination vtype entropy now =
     (let active = (case current_ride (riders w ! self) of
                      None \<Rightarrow> False
                    | Some c \<Rightarrow> \<not> is_completed (rides w ! c) \<and> \<not> is_cancelled (rides w ! c))
      in if active then Returns None w
         else
           (let ride_request = \<lparr>RideRequest.rider = self, end_location = destination\<rparr>;
                ride_matching = RideMatching_init (drivers w)
            in case find_driver w ride_matching ride_request vtype entropy now of
                 Raises e w' \<Rightarrow> Returns None w'
               | Returns None w' \<Rightarrow> Returns None w'
               | Returns (Some rd) w' \<Rightarrow>
                   (if estimated_fare (rides w' ! rd) \<le> wallet (riders w' ! self) then
                      (let w1 = upd_ride w' rd (\<lambda>r. r\<lparr>ride.rider := Some self\<rparr>);
                           w2 = upd_rider w1 self (\<lambda>u. u\<lparr>current_ride := Some rd\<rparr>)
                       in Returns (Some rd) w2)
                    else Returns None w')))"

section \<open>Rating\<close>

text \<open>
  What a caller can pass as a rating: an \<^verbatim>\<open>int\<close>, a \<^verbatim>\<open>float\<close>, a string (of ASCII
  characters) or \<^verbatim>\<open>None\<close>.
\<close>

datatype rating_arg = ArgInt int | ArgFloat rat | ArgStr string | ArgNone

text \<open>
  \<^verbatim>\<open>int(s)\<close> on a string: white space around the number is dropped, a sign may come
  first, then decimal digits, where single underscores may stand between digits.
\<close>

definition is_space :: "char \<Rightarrow> bool" where
  "is_space c = ((of_char c :: nat) \<in> {9, 10, 11, 12, 13, 32})"

definition is_digit :: "char \<Rightarrow> bool" where
  "is_digit c = (48 \<le> (of_char c :: nat) \<and> (of_char c :: nat) \<le> 57)"

definition digit_value :: "char \<Rightarrow> nat" where
  "digit_value c = of_char c - 48"

definition strip :: "string \<Rightarrow> string" where
  "strip s = rev (dropWhile is_space (rev (dropWhile is_space s)))"

fun digits_from :: "nat \<Rightarrow> string \<Rightarrow> nat option" where
  "digits_from acc [] = Some acc"
| "digits_from acc [c] =
     (if is_digit c then Some (10 * acc + digit_value c) else None)"
| "digits_from acc (c # d # cs) =
     (if is_digit c then digits_from (10 * acc + digit_value c) (d # cs)
      else if c = CHR ''_'' \<and> is_digit d then digits_from (10 * acc + digit_value d) cs
      else None)"

definition parse_nat :: "string \<Rightarrow> nat option" where
  "parse_nat s =
     (case s of
        [] \<Rightarrow> None
      | c # cs \<Rightarrow> if is_digit c then digits_from (digit_value c) cs else None)"

definition parse_int :: "string \<Rightarrow> int option" where
  "parse_int s =
     (case strip s of
        [] \<Rightarrow> None
      | c # cs \<Rightarrow>
          if c = CHR ''-'' then map_option (\<lambda>n. - int n) (parse_nat cs)
          else if c = CHR ''+'' then map_option int (parse_nat cs)
          else map_option int (parse_nat (c # cs)))"

text \<open>
  \<^verbatim>\<open>int(rating)\<close>: the identity on an \<^verbatim>\<open>int\<close>, truncation towards zero on a \<^verbatim>\<open>float\<close>,
  \<^verbatim>\<open>ValueError\<close> on a string that is no number and \<^verbatim>\<open>TypeError\<close> on \<^verbatim>\<open>None\<close>.
\<close>

fun py_int :: "rating_arg \<Rightarrow> exn + int" where
  "py_int (ArgInt n) = Inr n"
| "py_int (ArgFloat x) = Inr (if 0 \<le> x then \<lfloor>x\<rfloor> else \<lceil>x\<rceil>)"
| "py_int (ArgStr s) = (case parse_int s of None \<Rightarrow> Inl ValueError | Some n \<Rightarrow> Inr n)"
| "py_int ArgNone = Inl TypeError"

text \<open>
  The new average \<^verbatim>\<open>((average * (n - 1)) + rating) / n\<close> for the incremented count
  \<open>n\<close>: the average is a \<^verbatim>\<open>float\<close>, so each of the three operations converts its
  \<^verbatim>\<open>int\<close> operand and rounds its result.
\<close>

definition running_mean :: "rat \<Rightarrow> nat \<Rightarrow> int \<Rightarrow> rat" where
  "running_mean average n r =
     fl (fl (fl (average * fl (of_int (int n - 1))) + fl (of_int r)) / fl (of_nat n))"

text \<open>
  \<^verbatim>\<open>Rider.rate_driver\<close> and \<^verbatim>\<open>Driver.rate_rider\<close>. The \<^verbatim>\<open>except ValueError\<close> clause
  catches the failed conversion only; any other exception leaves the method.
\<close>

definition rate_driver :: "world \<Rightarrow> rider_ref \<Rightarrow> ride_ref \<Rightarrow> rating_arg \<Rightarrow> bool outcome" where
  "rate_driver w self rd arg =
     (case py_int arg of
        Inl ValueError \<Rightarrow> Returns False w
      | Inl e \<Rightarrow> Raises e w
      | Inr score \<Rightarrow>
         (if score < 1 \<or> 5 < score then Returns False w
          else
            (let w1 = upd_ride w rd (\<lambda>r. r\<lparr>rating := Some score\<rparr>)
             in case ride.driver (rides w1 ! rd) of
                  None \<Rightarrow> Raises AttributeError w1
                | Some d \<Rightarrow>
                   (let w2 = upd_driver w1 d
                               (\<lambda>u. u\<lparr>driver.total_ratings := driver.total_ratings u + 1\<rparr>);
                        w3 = upd_driver w2 d
                               (\<lambda>u. u\<lparr>driver.average_rating :=
                                  running_mean (driver.average_rating u)
                                    (driver.total_ratings u) score\<rparr>)
                    in Returns True w3))))"

definition rate_rider :: "world \<Rightarrow> driver_ref \<Rightarrow> ride_ref \<Rightarrow> rating_arg \<Rightarrow> bool outcome" where
  "rate_rider w self rd arg =
     (case py_int arg of
        Inl ValueError \<Rightarrow> Returns False w
      | Inl e \<Rightarrow> Raises e w
      | Inr score \<Rightarrow>
         (if score < 1 \<or> 5 < score then Returns False w
          else
            (case ride.rider (rides w ! rd) of
               None \<Rightarrow> Raises AttributeError w
             | Some p \<Rightarrow>
                (let w1 = upd_rider w p
                            (\<lambda>u. u\<lparr>rider.total_ratings := rider.total_ratings u + 1\<rparr>);
                     w2 = upd_rider w1 p
                            (\<lambda>u. u\<lparr>rider.average_rating :=
                               running_mean (rider.average_rating u)
                                 (rider.total_ratings u) score\<rparr>)
                 in Returns True w2))))"

section \<open>Registry queries\<close>

text \<open>The slice \<^verbatim>\<open>xs[:n]\<close>; a negative \<open>n\<close> counts from the end.\<close>

definition slice_to :: "int \<Rightarrow> 'a list \<Rightarrow> 'a list" where
  "slice_to n xs = (if 0 \<le> n then take (nat n) xs else take (length xs - nat (- n)) xs)"

text \<open>
  \<^verbatim>\<open>sorted(xs, key=f, reverse=True)\<close>: descending, and elements with equal keys keep
  their original order.
\<close>

definition sorted_reverse :: "('a \<Rightarrow> 'k::linorder) \<Rightarrow> 'a list \<Rightarrow> 'a list" where
  "sorted_reverse key xs = rev (sort_key key (rev xs))"

text \<open>\<^verbatim>\<open>RideSharing.get_top_rated_drivers(limit=5)\<close>, returning driver references.\<close>

definition get_top_rated_drivers :: "driver list \<Rightarrow> int \<Rightarrow> driver_ref list" where
  "get_top_rated_drivers ds limit =
     (if ds = [] then []
      else
        (let rated_drivers = filter (\<lambda>i. 0 < driver.total_ratings (ds ! i)) [0..<length ds]
         in if rated_drivers = [] then []
            else slice_to limit
                   (sorted_reverse
                      (\<lambda>i. (driver.average_rating (ds ! i), driver.total_rides (ds ! i)))
                      rated_drivers)))"

section \<open>Example object graphs\<close>

text \<open>
  One rider with 1000 in the wallet on a 10 km bike ride (rate 20, fare 250) that a
  driver has accepted at time 100.
\<close>

definition riding :: world where
  "riding = \<lparr>company_name = ''QuickRide'',
     riders = [(Rider_init ''Rina'' ''rina@example.org'' ''1001'' ''Dhanmondi'' 1000)
                 \<lparr>current_ride := Some 0\<rparr>],
     drivers = [(Driver_init ''Karim'' ''karim@example.org'' ''2001'' ''Mirpur''
                   (Some (Bike ''DHA-7'' (PyInt 20))))\<lparr>is_available := False\<rparr>],
     total_rides = 0,
     rides = [\<lparr>start_location = ''Dhanmondi'', end_location = ''Gulshan'',
        driver = Some 0, rider = Some 0, start_time = Some 100, end_time = None,
        vehicle = Some (Bike ''DHA-7'' (PyInt 20)), distance = PyInt 10, estimated_fare = 250,
        is_completed = False, is_cancelled = False,
        cancellation_fee = CANCELLATION_FEE, rating = None\<rparr>]\<rparr>"

text \<open>The same ride, with only 15 left in the rider's wallet.\<close>

definition riding_broke :: world where
  "riding_broke = upd_rider riding 0 (\<lambda>u. u\<lparr>wallet := 15\<rparr>)"

text \<open>
  Suitability of a driver for a requested vehicle type in the words of the
  specification: available, and the vehicle's type equal to the requested one when
  both are compared without regard to case.
\<close>

definition spec_suitable :: "string \<Rightarrow> driver \<Rightarrow> bool" where
  "spec_suitable vtype d =
     (is_available d \<and>
      (case driver.vehicle d of None \<Rightarrow> False
       | Some v \<Rightarrow> lower (vehicle_type v) = lower vtype))"

text \<open>
  A rider in Dhanmondi and four drivers: a bike driver rated 4.9, two car drivers
  rated 4.5 and a busy car driver rated 5.
\<close>

definition pool :: world where
  "pool = \<lparr>company_name = ''QuickRide'',
     riders = [Rider_init ''Rina'' ''rina@example.org'' ''1001'' ''Dhanmondi'' 100],
     drivers =
       [(Driver_init ''Babul'' ''b@example.org'' ''2000'' ''Uttara'' (Some (Bike ''DHA-0'' (PyInt 20))))
          \<lparr>driver.average_rating := 49 / 10, driver.total_ratings := 10\<rparr>,
        (Driver_init ''Karim'' ''k@example.org'' ''2001'' ''Mirpur'' (Some (Car ''DHA-1'' (PyInt 30))))
          \<lparr>driver.average_rating := 45 / 10, driver.total_ratings := 2\<rparr>,
        (Driver_init ''Salma'' ''s@example.org'' ''2002'' ''Banani'' (Some (Car ''DHA-2'' (PyInt 30))))
          \<lparr>driver.average_rating := 45 / 10, driver.total_ratings := 4\<rparr>,
        (Driver_init ''Jamal'' ''j@example.org'' ''2003'' ''Motijheel'' (Some (Car ''DHA-3'' (PyInt 30))))
          \<lparr>is_available := False, driver.average_rating := 5, driver.total_ratings := 1\<rparr>],
     total_rides = 0,
     rides = []\<rparr>"

text \<open>
  Three rated drivers: 4.5 with 10 rides, 4.8 with 15 rides and 4.2 with 8 rides.
\<close>

definition rated_trio :: "driver list" where
  "rated_trio =
     [(Driver_init ''Karim'' ''k@example.org'' ''2001'' ''Mirpur'' (Some (Car ''DHA-1'' (PyInt 30))))
        \<lparr>driver.total_rides := 10, driver.average_rating := 45 / 10, driver.total_ratings := 6\<rparr>,
      (Driver_init ''Salma'' ''s@example.org'' ''2002'' ''Banani'' (Some (Bike ''DHA-2'' (PyInt 20))))
        \<lparr>driver.total_rides := 15, driver.average_rating := 48 / 10, driver.total_ratings := 9\<rparr>,
      (Driver_init ''Jamal'' ''j@example.org'' ''2003'' ''Motijheel'' (Some (CNG ''DHA-3'' (PyInt 25))))
        \<lparr>driver.total_rides := 8, driver.average_rating := 42 / 10, driver.total_ratings := 5\<rparr>]"

section \<open>Properties of double rounding\<close>

lemma round_half_even_near: "\<bar>of_int (round_half_even y) - y\<bar> \<le> 1 / 2"
proof -
  define f where "f = \<lfloor>y\<rfloor>"
  define k where "k = (if y - of_int f < 1 / 2 then f
                       else if 1 / 2 < y - of_int f then f + 1
                       else if even f then f else f + 1)"
  have lo: "of_int f \<le> y" and hi: "y < of_int f + 1"
    unfolding f_def by linarith+
  have k: "\<bar>of_int k - y\<bar> \<le> 1 / 2"
    using lo hi unfolding k_def by (simp add: abs_if)
  have "round_half_even y = k"
    by (simp add: round_half_even_def Let_def f_def k_def)
  with k show ?thesis by simp
qed

lemma round_half_even_of_int: "round_half_even (of_int n) = n"
  by (simp add: round_half_even_def Let_def)

lemma ilog2_le:
  assumes "x \<noteq> 0"
  shows "2 powi (ilog2 x) \<le> \<bar>x\<bar>"
proof (cases "1 \<le> \<bar>x\<bar>")
  case True
  define n where "n = \<lfloor>\<bar>x\<bar>\<rfloor>"
  have n: "0 < n" using True by (simp add: n_def)
  have nx: "of_int n \<le> \<bar>x\<bar>" by (simp add: n_def)
  from bitlen_bounds [OF n] have b: "2 ^ nat (bitlen n - 1) \<le> n" by simp
  have b1: "1 \<le> bitlen n"
    using n by (simp add: bitlen_alt_def)
  have "ilog2 x = bitlen n - 1" using True by (simp add: ilog2_def n_def)
  then have "(2::rat) powi (ilog2 x) = 2 ^ nat (bitlen n - 1)"
    using b1 by (simp add: power_int_def)
  also have "\<dots> = of_int (2 ^ nat (bitlen n - 1))" by simp
  also have "\<dots> \<le> of_int n" using b by (simp only: of_int_le_iff)
  finally show ?thesis using nx by linarith
next
  case False
  define a where "a = \<bar>x\<bar>"
  have a0: "0 < a" and a1: "a < 1" using assms False by (simp_all add: a_def)
  define m where "m = \<lceil>1 / a\<rceil>"
  have "1 < 1 / a" using a0 a1 by simp
  then have m2: "1 < m" unfolding m_def by linarith
  have am: "1 / a \<le> of_int m" unfolding m_def by linarith
  define c where "c = bitlen (m - 1)"
  have c0: "0 \<le> c" by (simp add: c_def bitlen_nonneg)
  from bitlen_bounds [of "m - 1"] m2 have "m - 1 < 2 ^ nat c" by (simp add: c_def)
  then have "m \<le> 2 ^ nat c" by simp
  then have "(of_int m :: rat) \<le> of_int (2 ^ nat c)" by (simp only: of_int_le_iff)
  then have mc: "(of_int m :: rat) \<le> 2 ^ nat c" by simp
  have "1 / a \<le> 2 ^ nat c" using am mc by linarith
  then have "1 \<le> 2 ^ nat c * a" using a0 by (simp add: field_simps)
  then have le: "1 / 2 ^ nat c \<le> a" by (simp add: field_simps)
  have "ilog2 x = - c" using False by (simp add: ilog2_def c_def m_def a_def)
  then have "(2::rat) powi (ilog2 x) = 1 / 2 ^ nat c"
    using c0 by (cases "c = 0") (simp_all add: power_int_def field_simps)
  with le show ?thesis by (simp add: a_def)
qed

lemma ilog2_less:
  assumes "x \<noteq> 0" and "\<bar>x\<bar> < 2 powi k"
  shows "ilog2 x < k"
proof (rule ccontr)
  assume "\<not> ilog2 x < k"
  then have "k \<le> ilog2 x" by simp
  then have "(2::rat) powi k \<le> 2 powi (ilog2 x)" by (rule power_int_increasing) simp
  with ilog2_le [OF assms(1)] assms(2) show False by linarith
qed

lemma fl_error:
  assumes "\<bar>x\<bar> < 2 powi k" and "- 1021 \<le> k"
  shows "\<bar>fl x - x\<bar> \<le> 2 powi (k - 54)"
proof (cases "x = 0")
  case True
  then show ?thesis by (simp add: fl_def)
next
  case False
  define u where "u = max (ilog2 x - 52) (- 1074)"
  define P :: rat where "P = 2 powi u"
  have P0: "0 < P" by (simp add: P_def)
  from ilog2_less [OF False assms(1)] assms(2) have u: "u \<le> k - 53"
    by (simp add: u_def)
  have f: "fl x = of_int (round_half_even (x / P)) * P"
    using False by (simp add: fl_def Let_def u_def P_def)
  have "fl x - x = (of_int (round_half_even (x / P)) - x / P) * P"
    using P0 by (simp add: f field_simps)
  then have "\<bar>fl x - x\<bar> = \<bar>of_int (round_half_even (x / P)) - x / P\<bar> * P"
    using P0 by (simp add: abs_mult)
  also have "\<dots> \<le> (1 / 2) * P"
    using round_half_even_near [of "x / P"] P0 by (intro mult_right_mono) simp_all
  also have "\<dots> = 2 powi (u - 1)"
    by (simp add: P_def power_int_diff)
  also have "\<dots> \<le> 2 powi (k - 54)"
    by (rule power_int_increasing) (use u in simp_all)
  finally show ?thesis .
qed

lemma fl_of_int:
  assumes "\<bar>n\<bar> < 2 ^ 53"
  shows "fl (of_int n) = of_int n"
proof (cases "n = 0")
  case True
  then show ?thesis by (simp add: fl_def)
next
  case False
  define x :: rat where "x = of_int n"
  have x0: "x \<noteq> 0" using False by (simp add: x_def)
  have "\<bar>x\<bar> = of_int \<bar>n\<bar>" by (simp add: x_def)
  also have "\<dots> < of_int (2 ^ 53)" using assms by (simp only: of_int_less_iff)
  finally have "\<bar>x\<bar> < 2 powi 53" by simp
  from ilog2_less [OF x0 this] have i: "ilog2 x < 53" .
  define u where "u = max (ilog2 x - 52) (- 1074)"
  define j where "j = nat (- u)"
  have u: "u = - int j" using i by (simp add: u_def j_def)
  have P: "(2::rat) powi u = 1 / 2 ^ j"
    unfolding u by (cases "j = 0") (simp_all add: power_int_def field_simps)
  have "x / 2 powi u = of_int (n * 2 ^ j)" by (simp add: P x_def)
  then have "round_half_even (x / 2 powi u) = n * 2 ^ j"
    by (simp only: round_half_even_of_int)
  then have "fl x = of_int (n * 2 ^ j) * (1 / 2 ^ j)"
    using x0 by (simp add: fl_def Let_def u_def [symmetric] P)
  then show ?thesis by (simp add: x_def)
qed

lemma hundredths_near: "\<bar>hundredths x - x\<bar> \<le> 1 / 200"
proof -
  have e: "hundredths x - x = (of_int (round_half_even (x * 100)) - x * 100) / 100"
    by (simp add: hundredths_def diff_divide_distrib)
  have "\<bar>hundredths x - x\<bar> = \<bar>of_int (round_half_even (x * 100)) - x * 100\<bar> / 100"
    unfolding e by (simp add: abs_divide)
  also have "\<dots> \<le> (1 / 2) / 100"
    using round_half_even_near [of "x * 100"] by (rule divide_right_mono) simp
  finally show ?thesis by simp
qed

lemma to_float_val:
  assumes "\<bar>val a\<bar> \<le> 2 ^ 20"
  shows "to_float a = val a"
proof (cases a)
  case (PyInt n)
  with assms have "(of_int \<bar>n\<bar> :: rat) \<le> of_int (2 ^ 20)" by simp
  then have "\<bar>n\<bar> \<le> 2 ^ 20" by (simp only: of_int_le_iff)
  then have "\<bar>n\<bar> < 2 ^ 53" by simp
  with PyInt show ?thesis by (simp add: fl_of_int)
next
  case (PyFloat x)
  then show ?thesis by simp
qed

lemma float_fare_near:
  assumes x: "\<bar>x\<bar> \<le> 2 ^ 20" and y: "\<bar>y\<bar> \<le> 2 ^ 20"
  shows "\<bar>fl (hundredths (fl (50 + fl (x * y)))) - (50 + x * y)\<bar> < 1 / 100"
proof -
  define p where "p = fl (x * y)"
  define s where "s = fl (50 + p)"
  define h where "h = hundredths s"
  have "\<bar>x * y\<bar> = \<bar>x\<bar> * \<bar>y\<bar>" by (rule abs_mult)
  also have "\<dots> \<le> 2 ^ 20 * 2 ^ 20"
    using x y by (intro mult_mono) simp_all
  finally have xy: "\<bar>x * y\<bar> \<le> 2 ^ 40" by simp
  then have "\<bar>x * y\<bar> < 2 powi 41" by simp
  from fl_error [OF this] have ep: "\<bar>p - x * y\<bar> \<le> 2 powi (- 13)"
    by (simp add: p_def)
  then have ep': "\<bar>p - x * y\<bar> \<le> 1 / 8192" by simp
  have "\<bar>50 + p\<bar> < 2 powi 42" using xy ep' by (simp add: abs_if split: if_splits)
  from fl_error [OF this] have es: "\<bar>s - (50 + p)\<bar> \<le> 2 powi (- 12)"
    by (simp add: s_def)
  then have es': "\<bar>s - (50 + p)\<bar> \<le> 1 / 4096" by simp
  have eh: "\<bar>h - s\<bar> \<le> 1 / 200" unfolding h_def by (rule hundredths_near)
  have "\<bar>h\<bar> < 2 powi 43" using xy ep' es' eh by (simp add: abs_if split: if_splits)
  from fl_error [OF this] have ef: "\<bar>fl h - h\<bar> \<le> 2 powi (- 11)" by simp
  then have ef': "\<bar>fl h - h\<bar> \<le> 1 / 2048" by simp
  have "\<bar>fl h - (50 + x * y)\<bar> < 1 / 100"
    using ep' es' eh ef' by (simp add: abs_if split: if_splits)
  then show ?thesis by (simp add: h_def s_def p_def)
qed

section \<open>Properties of the fare\<close>

lemma randint_range: "a \<le> b \<Longrightarrow> a \<le> randint a b entropy \<and> randint a b entropy \<le> b"
proof -
  assume ab: "a \<le> b"
  then have pos: "0 < nat (b - a + 1)" by simp
  have "entropy mod nat (b - a + 1) < nat (b - a + 1)"
    using pos by (rule mod_less_divisor)
  then have "int (entropy mod nat (b - a + 1)) < int (nat (b - a + 1))"
    by (simp only: of_nat_less_iff)
  also have "int (nat (b - a + 1)) = b - a + 1" using ab by simp
  finally show ?thesis by (simp add: randint_def)
qed

lemma fare_value_near:
  assumes "\<bar>val d\<bar> \<le> 2 ^ 20" and "\<bar>val q\<bar> \<le> 2 ^ 20"
  shows "\<bar>val (py_round2 (num_add (PyInt 50) (num_mul d q))) - (50 + val d * val q)\<bar> < 1 / 100"
proof -
  have f50: "fl 50 = 50" using fl_of_int [of 50] by simp
  note tf = to_float_val [OF assms(1)] to_float_val [OF assms(2)]
  show ?thesis
  proof (cases "\<exists>m n. d = PyInt m \<and> q = PyInt n")
    case True
    then show ?thesis by auto
  next
    case False
    then have "num_mul d q = PyFloat (fl (to_float d * to_float q))"
      by (cases d; cases q) simp_all
    then have "val (py_round2 (num_add (PyInt 50) (num_mul d q)))
        = fl (hundredths (fl (50 + fl (val d * val q))))"
      by (simp add: f50 tf)
    with float_fare_near [OF assms] show ?thesis by simp
  qed
qed

text \<open>
  C1. A ride created with a vehicle of per-km rate \<open>r\<close> and a supplied distance
  \<open>d > 0\<close> keeps that distance, and its fare is the value of Python's
  \<^verbatim>\<open>round(50 + d * r, 2)\<close>. For an \<^verbatim>\<open>int\<close> distance and an \<^verbatim>\<open>int\<close> rate that is
  \<open>50 + d \<times> r\<close> exactly. As soon as one of them is a \<^verbatim>\<open>float\<close>, the product, the
  sum and the rounded result are each rounded to the nearest double; for distances
  and rates up to \<open>2\<^sup>2\<^sup>0\<close> the fare is then less than 0.01 away from \<open>50 + d \<times> r\<close>.
\<close>

theorem fare_of_created_ride:
  assumes "0 < val d"
  shows "\<exists>r. Ride_init start_loc end_loc (Some v) (Some d) entropy = Inr r
           \<and> distance r = d
           \<and> estimated_fare r = val (py_round2 (num_add (PyInt 50) (num_mul d (rate v))))
           \<and> (\<forall>m n. d = PyInt m \<and> rate v = PyInt n \<longrightarrow>
                 estimated_fare r = of_int (50 + m * n))
           \<and> (\<forall>x y. d = PyFloat x \<and> rate v = PyFloat y \<longrightarrow>
                 estimated_fare r = fl (hundredths (fl (fl 50 + fl (x * y)))))
           \<and> (\<bar>val d\<bar> \<le> 2 ^ 20 \<and> \<bar>val (rate v)\<bar> \<le> 2 ^ 20 \<longrightarrow>
                 \<bar>estimated_fare r - (50 + val d * val (rate v))\<bar> < 1 / 100)"
proof -
  let ?f = "val (py_round2 (num_add (PyInt 50) (num_mul d (rate v))))"
  from assms have "Ride_init start_loc end_loc (Some v) (Some d) entropy
      = Inr \<lparr>start_location = start_loc, end_location = end_loc,
              driver = None, rider = None, start_time = None, end_time = None,
              vehicle = Some v, distance = d, estimated_fare = ?f,
              is_completed = False, is_cancelled = False,
              cancellation_fee = CANCELLATION_FEE, rating = None\<rparr>"
    by (simp add: Ride_init_def calculate_fare_def)
  moreover have "\<forall>m n. d = PyInt m \<and> rate v = PyInt n \<longrightarrow> ?f = of_int (50 + m * n)"
    by simp
  moreover have "\<forall>x y. d = PyFloat x \<and> rate v = PyFloat y \<longrightarrow>
                 ?f = fl (hundredths (fl (fl 50 + fl (x * y))))"
    by simp
  moreover have "\<bar>val d\<bar> \<le> 2 ^ 20 \<and> \<bar>val (rate v)\<bar> \<le> 2 ^ 20 \<longrightarrow>
                 \<bar>?f - (50 + val d * val (rate v))\<bar> < 1 / 100"
    using fare_value_near [of d "rate v"] by blast
  ultimately show ?thesis by simp
qed

theorem fare_of_created_ride_witness:
  "(\<exists>r. Ride_init ''Dhanmondi'' ''Gulshan'' (Some (Car ''DHA-1'' (PyInt 30))) (Some (PyInt 10)) 0
         = Inr r
       \<and> distance r = PyInt 10 \<and> estimated_fare r = 350)
   \<and> (\<exists>r. Ride_init ''Dhanmondi'' ''Gulshan'' (Some (Car ''DHA-1'' (PyFloat (61 / 2))))
           (Some (PyFloat (5 / 2))) 0 = Inr r
       \<and> distance r = PyFloat (5 / 2) \<and> estimated_fare r = 505 / 4)"
proof
  have pos: "0 < val (PyInt 10)" by simp
  have r: "rate (Car ''DHA-1'' (PyInt 30)) = PyInt 30" by (simp add: Car_def)
  show "\<exists>r. Ride_init ''Dhanmondi'' ''Gulshan'' (Some (Car ''DHA-1'' (PyInt 30))) (Some (PyInt 10)) 0
         = Inr r
       \<and> distance r = PyInt 10 \<and> estimated_fare r = 350"
    using fare_of_created_ride [OF pos, of "''Dhanmondi''" "''Gulshan''"
        "Car ''DHA-1'' (PyInt 30)" 0]
    unfolding r by auto
next
  have pos: "0 < val (PyFloat (5 / 2))" by simp
  have r: "rate (Car ''DHA-1'' (PyFloat (61 / 2))) = PyFloat (61 / 2)" by (simp add: Car_def)
  have e: "val (py_round2 (num_add (PyInt 50) (num_mul (PyFloat (5 / 2)) (PyFloat (61 / 2)))))
      = 505 / 4"
    by code_simp
  from fare_of_created_ride [OF pos, of "''Dhanmondi''" "''Gulshan''"
        "Car ''DHA-1'' (PyFloat (61 / 2))" 0]
  obtain x where "Ride_init ''Dhanmondi'' ''Gulshan'' (Some (Car ''DHA-1'' (PyFloat (61 / 2))))
           (Some (PyFloat (5 / 2))) 0 = Inr x"
    and "distance x = PyFloat (5 / 2)"
    and "estimated_fare x = val (py_round2 (num_add (PyInt 50)
           (num_mul (PyFloat (5 / 2)) (rate (Car ''DHA-1'' (PyFloat (61 / 2)))))))"
    by blast
  then show "\<exists>r. Ride_init ''Dhanmondi'' ''Gulshan'' (Some (Car ''DHA-1'' (PyFloat (61 / 2))))
           (Some (PyFloat (5 / 2))) 0 = Inr r
       \<and> distance r = PyFloat (5 / 2) \<and> estimated_fare r = 505 / 4"
    unfolding r e by blast
qed

text \<open>
  C1, as written, fails on a \<^verbatim>\<open>float\<close> distance. For the distance 5.003 (the double
  nearest to it) and the rate 25 the code computes the product 125.07499999999999
  and the fare 175.07 (the double nearest to it), while \<open>50 + d \<times> r\<close> lies just above
  175.075 and its rounding to two decimals is 175.08.
\<close>

theorem fare_rounding_counterexample:
  "map_sum id estimated_fare
     (Ride_init ''Dhanmondi'' ''Gulshan'' (Some (Car ''DHA-1'' (PyInt 25)))
        (Some (PyFloat (fl (5003 / 1000)))) 0)
     = Inr (fl (17507 / 100))
   \<and> hundredths (50 + val (PyFloat (fl (5003 / 1000))) * val (PyInt 25)) = 17508 / 100
   \<and> fl (17507 / 100) < 17507 / 100"
  by code_simp

section \<open>Properties of ride construction\<close>

lemma Ride_init_distance:
  "Ride_init start_loc end_loc veh km entropy = Inr r \<Longrightarrow>
   distance r = (if truthy km then the km else PyInt (randint 5 25 entropy))"
  by (auto simp: Ride_init_def Let_def split: sum.splits)

lemma randint_5_25_less: "e < 21 \<Longrightarrow> randint 5 25 e = 5 + int e"
  by (simp add: randint_def)

lemma randint_5_25_bij: "bij_betw (randint 5 25) {0..<21} {5..25}"
proof (rule bij_betw_byWitness [where f' = "\<lambda>n. nat (n - 5)"])
  show "\<forall>e\<in>{0..<21}. nat (randint 5 25 e - 5) = e"
    by (simp add: randint_5_25_less)
  show "\<forall>n\<in>{5..25}. randint 5 25 (nat (n - 5)) = n"
  proof
    fix n :: int assume "n \<in> {5..25}"
    then have "nat (n - 5) < 21" and "5 \<le> n" by auto
    then show "randint 5 25 (nat (n - 5)) = n"
      by (simp add: randint_5_25_less)
  qed
  show "randint 5 25 ` {0..<21} \<subseteq> {5..25}"
    by (auto simp: randint_5_25_less)
  show "(\<lambda>n. nat (n - 5)) ` {5..25} \<subseteq> {0..<21}"
    by auto
qed

text \<open>
  C9. Creating a ride without a vehicle produces no ride: the constructor raises
  \<^verbatim>\<open>AttributeError\<close> when \<^verbatim>\<open>calculate_fare\<close> reads the rate of the absent vehicle,
  whatever the other arguments are. There is no check of the vehicle and no
  dedicated invalid-input result.
\<close>

theorem absent_vehicle_raises:
  "Ride_init start_loc end_loc None km entropy = Inl AttributeError"
  by (simp add: Ride_init_def calculate_fare_def)

text \<open>
  C10. A supplied distance of 0 (\<^verbatim>\<open>0\<close> or \<^verbatim>\<open>0.0\<close>) is falsy: the constructor does
  exactly what it does without a distance, so the distance of the ride is the
  sampled integer of \<^verbatim>\<open>randint(5, 25)\<close> and the fare is computed from that sampled
  distance. No constructed ride has distance 0, and a ride whose distance was
  defaulted (absent or 0) has an integer distance between 5 and 25. The sample is
  uniform when the source of randomness is: each of the 21 integers from 5 to 25 is
  the sample for exactly one residue of the entropy modulo 21.
\<close>

theorem falsy_distance_defaulted:
  "(\<forall>r. Ride_init start_loc end_loc veh km entropy = Inr r \<longrightarrow>
        val (distance r) \<noteq> 0
      \<and> (km = None \<or> km = Some (PyInt 0) \<or> km = Some (PyFloat 0) \<longrightarrow>
           distance r = PyInt (randint 5 25 entropy)
         \<and> 5 \<le> randint 5 25 entropy \<and> randint 5 25 entropy \<le> 25
         \<and> (\<exists>v'. veh = Some v' \<and> estimated_fare r = val (py_round2 (num_add (PyInt 50)
               (num_mul (PyInt (randint 5 25 entropy)) (rate v')))))))
   \<and> Ride_init start_loc end_loc veh (Some (PyInt 0)) entropy
       = Ride_init start_loc end_loc veh None entropy
   \<and> Ride_init start_loc end_loc veh (Some (PyFloat 0)) entropy
       = Ride_init start_loc end_loc veh None entropy
   \<and> (\<exists>r. Ride_init start_loc end_loc (Some v) (Some (PyInt 0)) entropy = Inr r
          \<and> distance r = PyInt (randint 5 25 entropy))
   \<and> bij_betw (randint 5 25) {0..<21} {5..25}
   \<and> randint 5 25 (entropy + 21) = randint 5 25 entropy"
proof -
  have rng: "5 \<le> randint 5 25 entropy \<and> randint 5 25 entropy \<le> 25"
    by (rule randint_range) simp
  then have nz: "(of_int (randint 5 25 entropy) :: rat) \<noteq> 0" by simp
  have a: "val (distance r) \<noteq> 0
      \<and> (km = None \<or> km = Some (PyInt 0) \<or> km = Some (PyFloat 0) \<longrightarrow>
           distance r = PyInt (randint 5 25 entropy)
         \<and> 5 \<le> randint 5 25 entropy \<and> randint 5 25 entropy \<le> 25
         \<and> (\<exists>v'. veh = Some v' \<and> estimated_fare r = val (py_round2 (num_add (PyInt 50)
               (num_mul (PyInt (randint 5 25 entropy)) (rate v'))))))"
    if r: "Ride_init start_loc end_loc veh km entropy = Inr r" for r
  proof (intro conjI impI)
    show "val (distance r) \<noteq> 0"
      using Ride_init_distance [OF r] nz by (cases km) auto
  next
    assume k: "km = None \<or> km = Some (PyInt 0) \<or> km = Some (PyFloat 0)"
    then have f: "\<not> truthy km" by auto
    show "distance r = PyInt (randint 5 25 entropy)"
      using Ride_init_distance [OF r] f by simp
    show "5 \<le> randint 5 25 entropy" and "randint 5 25 entropy \<le> 25"
      using rng by simp_all
    show "\<exists>v'. veh = Some v' \<and> estimated_fare r = val (py_round2 (num_add (PyInt 50)
               (num_mul (PyInt (randint 5 25 entropy)) (rate v'))))"
      using r f
      by (cases veh) (auto simp: Ride_init_def calculate_fare_def Let_def)
  qed
  have b: "Ride_init start_loc end_loc veh (Some (PyInt 0)) entropy
       = Ride_init start_loc end_loc veh None entropy"
    and c: "Ride_init start_loc end_loc veh (Some (PyFloat 0)) entropy
       = Ride_init start_loc end_loc veh None entropy"
    by (simp_all add: Ride_init_def)
  have d: "\<exists>r. Ride_init start_loc end_loc (Some v) (Some (PyInt 0)) entropy = Inr r
          \<and> distance r = PyInt (randint 5 25 entropy)"
    by (simp add: Ride_init_def calculate_fare_def Let_def)
  have e: "randint 5 25 (entropy + 21) = randint 5 25 entropy"
    by (simp add: randint_def)
  from a b c d e randint_5_25_bij show ?thesis by blast
qed

theorem falsy_distance_defaulted_witness:
  "\<exists>r. Ride_init ''A'' ''B'' (Some (Bike ''DHA-2'' (PyInt 20))) (Some (PyInt 0)) 7 = Inr r
       \<and> distance r = PyInt 12 \<and> estimated_fare r = 290"
proof -
  let ?veh = "Some (Bike ''DHA-2'' (PyInt 20))"
  have v: "randint 5 25 7 = 12" by (simp add: randint_def)
  have q: "rate (Bike ''DHA-2'' (PyInt 20)) = PyInt 20" by (simp add: Bike_def)
  from falsy_distance_defaulted
      [of "''A''" "''B''" ?veh "Some (PyInt 0)" 7 "Bike ''DHA-2'' (PyInt 20)"]
  obtain r where r: "Ride_init ''A'' ''B'' ?veh (Some (PyInt 0)) 7 = Inr r"
    and d: "distance r = PyInt (randint 5 25 7)"
    and f: "\<exists>v'. ?veh = Some v' \<and> estimated_fare r = val (py_round2 (num_add (PyInt 50)
               (num_mul (PyInt (randint 5 25 7)) (rate v'))))"
    by blast
  from f have "estimated_fare r = val (py_round2 (num_add (PyInt 50)
               (num_mul (PyInt (randint 5 25 7)) (rate (Bike ''DHA-2'' (PyInt 20))))))"
    by simp
  with d have "distance r = PyInt 12 \<and> estimated_fare r = 290"
    by (simp add: v q)
  with r show ?thesis by blast
qed

section \<open>Properties of the ride lifecycle\<close>

lemma upd_ride_simps [simp]:
  "rides (upd_ride w rd f) = (rides w)[rd := f (rides w ! rd)]"
  "riders (upd_ride w rd f) = riders w"
  "drivers (upd_ride w rd f) = drivers w"
  "RideSharing.total_rides (upd_ride w rd f) = RideSharing.total_rides w"
  by (simp_all add: upd_ride_def)

lemma upd_rider_simps [simp]:
  "rides (upd_rider w p f) = rides w"
  "riders (upd_rider w p f) = (riders w)[p := f (riders w ! p)]"
  "drivers (upd_rider w p f) = drivers w"
  "RideSharing.total_rides (upd_rider w p f) = RideSharing.total_rides w"
  by (simp_all add: upd_rider_def)

lemma upd_driver_simps [simp]:
  "rides (upd_driver w d f) = rides w"
  "riders (upd_driver w d f) = riders w"
  "drivers (upd_driver w d f) = (drivers w)[d := f (drivers w ! d)]"
  "RideSharing.total_rides (upd_driver w d f) = RideSharing.total_rides w"
  by (simp_all add: upd_driver_def)

text \<open>
  C3. For a started ride with its rider and its driver bound, the driver's
  \<^verbatim>\<open>reach_destination\<close> returns normally; afterwards the rider's wallet is lower by
  exactly the fare and the driver's wallet higher by exactly the fare (no balance
  is checked), the ride is the last entry of the rider's history, the rider has no
  current ride, the driver's \<^verbatim>\<open>total_rides\<close> is one more, the driver is available
  and the ride is completed.
\<close>

theorem complete_settles_ride:
  assumes "rd < length (rides w)"
    and "ride.rider (rides w ! rd) = Some p" and "p < length (riders w)"
    and "ride.driver (rides w ! rd) = Some d" and "d < length (drivers w)"
    and "start_time (rides w ! rd) = Some t"
  shows "\<exists>w'. reach_destination w d rd now = Returns () w'
     \<and> wallet (riders w' ! p) = wallet (riders w ! p) - estimated_fare (rides w ! rd)
     \<and> wallet (drivers w' ! d) = wallet (drivers w ! d) + estimated_fare (rides w ! rd)
     \<and> rider.ride_history (riders w' ! p) = rider.ride_history (riders w ! p) @ [rd]
     \<and> current_ride (riders w' ! p) = None
     \<and> driver.total_rides (drivers w' ! d) = driver.total_rides (drivers w ! d) + 1
     \<and> is_available (drivers w' ! d)
     \<and> is_completed (rides w' ! rd)
     \<and> end_time (rides w' ! rd) = Some now"
  using assms by (simp add: reach_destination_def end_ride_def Let_def)

theorem complete_settles_ride_witness:
  "\<exists>w'. reach_destination riding 0 0 160 = Returns () w'
     \<and> wallet (riders w' ! 0) = 750
     \<and> wallet (drivers w' ! 0) = 250
     \<and> rider.ride_history (riders w' ! 0) = [0]
     \<and> current_ride (riders w' ! 0) = None
     \<and> driver.total_rides (drivers w' ! 0) = 1
     \<and> is_available (drivers w' ! 0)"
  using complete_settles_ride [of 0 riding 0 0 100 160]
  by (auto simp: riding_def Rider_init_def Driver_init_def)

text \<open>
  C6. Cancelling a ride that is neither completed nor cancelled, whose fee is the
  fixed cancellation fee of 20, always goes through: the ride becomes cancelled and
  a bound driver becomes available. When the rider cancels with at least 20 in the
  wallet, the rider pays 20 and a bound driver receives 20; when the rider cancels
  with less than 20, and when anybody else cancels, no rider is changed and no
  driver's wallet is changed.
\<close>

theorem cancel_charges_fee_when_affordable:
  assumes "rd < length (rides w)"
    and "\<not> is_completed (rides w ! rd)" and "\<not> is_cancelled (rides w ! rd)"
    and "cancellation_fee (rides w ! rd) = CANCELLATION_FEE"
    and "cancelled_by = ''rider'' \<longrightarrow>
           (\<exists>p < length (riders w). ride.rider (rides w ! rd) = Some p)"
    and "\<forall>d. ride.driver (rides w ! rd) = Some d \<longrightarrow> d < length (drivers w)"
  shows "\<exists>w'. cancel_ride w rd cancelled_by now = Returns None w'
     \<and> is_cancelled (rides w' ! rd) \<and> end_time (rides w' ! rd) = Some now
     \<and> (\<forall>d. ride.driver (rides w ! rd) = Some d \<longrightarrow> is_available (drivers w' ! d))
     \<and> (\<forall>p. cancelled_by = ''rider'' \<and> ride.rider (rides w ! rd) = Some p
              \<and> 20 \<le> wallet (riders w ! p) \<longrightarrow>
            wallet (riders w' ! p) = wallet (riders w ! p) - 20
          \<and> (\<forall>d. ride.driver (rides w ! rd) = Some d \<longrightarrow>
                 wallet (drivers w' ! d) = wallet (drivers w ! d) + 20))
     \<and> (\<forall>p. cancelled_by = ''rider'' \<and> ride.rider (rides w ! rd) = Some p
              \<and> wallet (riders w ! p) < 20 \<longrightarrow>
            riders w' = riders w \<and> (\<forall>q. wallet (drivers w' ! q) = wallet (drivers w ! q)))
     \<and> (cancelled_by \<noteq> ''rider'' \<longrightarrow>
            riders w' = riders w \<and> (\<forall>q. wallet (drivers w' ! q) = wallet (drivers w ! q)))"
proof (cases "ride.driver (rides w ! rd)")
  case None
  with assms show ?thesis
    by (auto simp: cancel_ride_def Let_def CANCELLATION_FEE_def)
next
  case (Some d)
  with assms have "d < length (drivers w)" by simp
  with Some assms show ?thesis
    by (auto simp: cancel_ride_def Let_def CANCELLATION_FEE_def nth_list_update)
qed

theorem cancel_charges_fee_when_affordable_witness:
  "(\<exists>w'. cancel_ride riding 0 ''rider'' 130 = Returns None w'
      \<and> is_cancelled (rides w' ! 0) \<and> is_available (drivers w' ! 0)
      \<and> wallet (riders w' ! 0) = 980 \<and> wallet (drivers w' ! 0) = 20)
   \<and> (\<exists>w'. cancel_ride riding_broke 0 ''rider'' 130 = Returns None w'
      \<and> is_cancelled (rides w' ! 0) \<and> is_available (drivers w' ! 0)
      \<and> wallet (riders w' ! 0) = 15 \<and> wallet (drivers w' ! 0) = 0)
   \<and> (\<exists>w'. cancel_ride riding 0 ''driver'' 130 = Returns None w'
      \<and> is_cancelled (rides w' ! 0) \<and> is_available (drivers w' ! 0)
      \<and> wallet (riders w' ! 0) = 1000 \<and> wallet (drivers w' ! 0) = 0)"
proof (intro conjI)
  show "\<exists>w'. cancel_ride riding 0 ''rider'' 130 = Returns None w'
      \<and> is_cancelled (rides w' ! 0) \<and> is_available (drivers w' ! 0)
      \<and> wallet (riders w' ! 0) = 980 \<and> wallet (drivers w' ! 0) = 20"
    using cancel_charges_fee_when_affordable [of 0 riding "''rider''" 130]
    by (auto simp: riding_def Rider_init_def Driver_init_def)
  show "\<exists>w'. cancel_ride riding_broke 0 ''rider'' 130 = Returns None w'
      \<and> is_cancelled (rides w' ! 0) \<and> is_available (drivers w' ! 0)
      \<and> wallet (riders w' ! 0) = 15 \<and> wallet (drivers w' ! 0) = 0"
    using cancel_charges_fee_when_affordable [of 0 riding_broke "''rider''" 130]
    by (auto simp: riding_broke_def riding_def upd_rider_def Rider_init_def Driver_init_def)
  show "\<exists>w'. cancel_ride riding 0 ''driver'' 130 = Returns None w'
      \<and> is_cancelled (rides w' ! 0) \<and> is_available (drivers w' ! 0)
      \<and> wallet (riders w' ! 0) = 1000 \<and> wallet (drivers w' ! 0) = 0"
    using cancel_charges_fee_when_affordable [of 0 riding "''driver''" 130]
    by (auto simp: riding_def Rider_init_def Driver_init_def)
qed

section \<open>Properties of rating\<close>

lemma rate_driver_accepts:
  assumes "py_int arg = Inr score" and "1 \<le> score" and "score \<le> 5"
    and "ride.driver (rides w ! rd) = Some d" and "rd < length (rides w)" and "d < length (drivers w)"
  shows "rate_driver w self rd arg = Returns True
           (w\<lparr>rides := (rides w)[rd := (rides w ! rd)\<lparr>rating := Some score\<rparr>],
              drivers := (drivers w)[d := (drivers w ! d)
                \<lparr>driver.total_ratings := driver.total_ratings (drivers w ! d) + 1,
                  driver.average_rating :=
                    running_mean (driver.average_rating (drivers w ! d))
                      (driver.total_ratings (drivers w ! d) + 1) score\<rparr>]\<rparr>)"
  using assms by (simp add: rate_driver_def Let_def upd_ride_def upd_driver_def)

lemma rate_rider_accepts:
  assumes "py_int arg = Inr score" and "1 \<le> score" and "score \<le> 5"
    and "ride.rider (rides w ! rd) = Some p" and "p < length (riders w)"
  shows "rate_rider w self rd arg = Returns True
           (w\<lparr>riders := (riders w)[p := (riders w ! p)
                \<lparr>rider.total_ratings := rider.total_ratings (riders w ! p) + 1,
                  rider.average_rating :=
                    running_mean (rider.average_rating (riders w ! p))
                      (rider.total_ratings (riders w ! p) + 1) score\<rparr>]\<rparr>)"
  using assms by (simp add: rate_rider_def Let_def upd_rider_def)

lemma rating_refused:
  assumes "py_int arg = Inl ValueError \<or> (\<exists>score. py_int arg = Inr score \<and> (score < 1 \<or> 5 < score))"
  shows "rate_driver w self rd arg = Returns False w"
    and "rate_rider w self' rd arg = Returns False w"
  using assms by (auto simp: rate_driver_def rate_rider_def)

lemma running_mean_near:
  assumes a: "0 \<le> a" "a \<le> 5" and r: "1 \<le> r" "r \<le> 5" and n: "0 < n" "n \<le> 2 ^ 20"
  shows "\<bar>running_mean a n r - (a * (of_nat n - 1) + of_int r) / of_nat n\<bar> \<le> 1 / 2 ^ 28"
proof -
  define N :: rat where "N = of_nat n"
  have N1: "1 \<le> N" using n by (simp add: N_def)
  have "(of_nat n :: rat) \<le> of_nat (2 ^ 20)" using n(2) by (simp only: of_nat_le_iff)
  then have N20: "N \<le> 2 ^ 20" by (simp add: N_def)
  have "\<bar>int n - 1\<bar> < 2 ^ 53" using n by simp
  from fl_of_int [OF this] have c1: "fl (of_nat n - 1) = N - 1"
    by (simp add: N_def)
  have "\<bar>int n\<bar> < 2 ^ 53" using n by simp
  from fl_of_int [OF this] have c2: "fl (of_nat n) = N" by (simp add: N_def)
  have "\<bar>r\<bar> < 2 ^ 53" using r by simp
  from fl_of_int [OF this] have c3: "fl (of_int r) = of_int r" .
  define R :: rat where "R = of_int r"
  have R: "1 \<le> R" "R \<le> 5" using r by (simp_all add: R_def)
  define p where "p = fl (a * (N - 1))"
  define q where "q = fl (p + R)"
  have m0: "0 \<le> a * (N - 1)" using a N1 by simp
  have "a * (N - 1) \<le> 5 * (2 ^ 20 - 1)" using a N1 N20 by (intro mult_mono) simp_all
  then have m1: "a * (N - 1) \<le> 5242875" by simp
  have "\<bar>a * (N - 1)\<bar> < 2 powi 23" using m0 m1 by simp
  from fl_error [OF this] have "\<bar>p - a * (N - 1)\<bar> \<le> 2 powi (- 31)" by (simp add: p_def)
  then have ep: "\<bar>p - a * (N - 1)\<bar> \<le> 1 / 2 ^ 31" by simp
  have "\<bar>p + R\<bar> < 2 powi 24" using m0 m1 ep R by (simp add: abs_if split: if_splits)
  from fl_error [OF this] have "\<bar>q - (p + R)\<bar> \<le> 2 powi (- 30)" by (simp add: q_def)
  then have eq: "\<bar>q - (p + R)\<bar> \<le> 1 / 2 ^ 30" by simp
  have qb: "\<bar>q\<bar> < 2 ^ 24" using m0 m1 ep eq R by (simp add: abs_if split: if_splits)
  have "\<bar>q / N\<bar> = \<bar>q\<bar> / N" using N1 by (simp add: abs_divide)
  also have "\<dots> \<le> \<bar>q\<bar> / 1" using N1 by (intro divide_left_mono) simp_all
  finally have "\<bar>q / N\<bar> < 2 powi 24" using qb by simp
  from fl_error [OF this] have "\<bar>fl (q / N) - q / N\<bar> \<le> 2 powi (- 30)" by simp
  then have et: "\<bar>fl (q / N) - q / N\<bar> \<le> 1 / 2 ^ 30" by simp
  have "\<bar>q - (a * (N - 1) + R)\<bar> \<le> 1 / 2 ^ 31 + 1 / 2 ^ 30"
    using ep eq by (simp add: abs_if split: if_splits)
  then have "\<bar>q - (a * (N - 1) + R)\<bar> / N \<le> (1 / 2 ^ 31 + 1 / 2 ^ 30) / 1"
    using N1 by (intro frac_le) simp_all
  moreover have "\<bar>q / N - (a * (N - 1) + R) / N\<bar> = \<bar>q - (a * (N - 1) + R)\<bar> / N"
    using N1 by (simp add: diff_divide_distrib [symmetric] abs_divide)
  ultimately have ed: "\<bar>q / N - (a * (N - 1) + R) / N\<bar> \<le> 1 / 2 ^ 31 + 1 / 2 ^ 30"
    by simp
  define T where "T = fl (q / N)"
  define Q where "Q = q / N"
  define E where "E = (a * (N - 1) + R) / N"
  have "\<bar>T - Q\<bar> \<le> 1 / 1073741824" and "\<bar>Q - E\<bar> \<le> 3 / 2147483648"
    using et ed by (simp_all add: T_def Q_def E_def)
  then have "\<bar>T - E\<bar> \<le> 1 / 268435456" by linarith
  then have "\<bar>fl (q / N) - (a * (N - 1) + R) / N\<bar> \<le> 1 / 2 ^ 28"
    by (simp add: T_def E_def)
  moreover have "running_mean a n r = fl (q / N)"
    by (simp add: running_mean_def c1 c2 c3 q_def p_def R_def)
  ultimately show ?thesis by (simp add: N_def R_def)
qed

lemma running_mean_5_3_4:
  "running_mean 0 1 5 = 5" "running_mean 5 2 3 = 4" "running_mean 4 3 4 = 4"
  by code_simp+

text \<open>
  C7. A rating is first converted with \<^verbatim>\<open>int\<close>. For a ride with its driver and its
  rider bound and a rating whose conversion is an integer from 1 to 5 (an \<^verbatim>\<open>int\<close> in
  that range, but also a \<^verbatim>\<open>float\<close> that truncates into it or a string of such a
  number), \<^verbatim>\<open>rate_driver\<close> and \<^verbatim>\<open>rate_rider\<close> return \<^verbatim>\<open>True\<close>; the target's
  \<^verbatim>\<open>total_ratings\<close> is one more, and with \<open>n\<close> the new count the new average is
  (old average \<open>\<times>\<close> (\<open>n\<close> - 1) + score) / \<open>n\<close> as computed on doubles, which for an
  old average between 0 and 5 and fewer than \<open>2\<^sup>2\<^sup>0\<close> ratings is within \<open>2\<^sup>-\<^sup>2\<^sup>8\<close> of the
  exact quotient. For a rating whose conversion is below 1 or above 5, or a string
  that is no number, both return \<^verbatim>\<open>False\<close> and change nothing. Rating a driver who
  has no rating yet with 5, 3 and 4 in turn gives the average 4 and three ratings.
\<close>

theorem rating_updates_running_mean:
  assumes "rd < length (rides w)"
    and "ride.driver (rides w ! rd) = Some d" and "d < length (drivers w)"
    and "ride.rider (rides w ! rd) = Some p" and "p < length (riders w)"
  shows "(\<forall>score. py_int arg = Inr score \<and> 1 \<le> score \<and> score \<le> 5 \<longrightarrow>
           (\<exists>w'. rate_driver w rater rd arg = Returns True w'
              \<and> driver.total_ratings (drivers w' ! d) = driver.total_ratings (drivers w ! d) + 1
              \<and> driver.average_rating (drivers w' ! d) =
                  running_mean (driver.average_rating (drivers w ! d))
                    (driver.total_ratings (drivers w' ! d)) score
              \<and> (0 \<le> driver.average_rating (drivers w ! d)
                  \<and> driver.average_rating (drivers w ! d) \<le> 5
                  \<and> driver.total_ratings (drivers w ! d) < 2 ^ 20 \<longrightarrow>
                  \<bar>driver.average_rating (drivers w' ! d)
                     - (driver.average_rating (drivers w ! d)
                          * (of_nat (driver.total_ratings (drivers w' ! d)) - 1) + of_int score)
                       / of_nat (driver.total_ratings (drivers w' ! d))\<bar> \<le> 1 / 2 ^ 28))
         \<and> (\<exists>w'. rate_rider w rater' rd arg = Returns True w'
              \<and> rider.total_ratings (riders w' ! p) = rider.total_ratings (riders w ! p) + 1
              \<and> rider.average_rating (riders w' ! p) =
                  running_mean (rider.average_rating (riders w ! p))
                    (rider.total_ratings (riders w' ! p)) score
              \<and> (0 \<le> rider.average_rating (riders w ! p)
                  \<and> rider.average_rating (riders w ! p) \<le> 5
                  \<and> rider.total_ratings (riders w ! p) < 2 ^ 20 \<longrightarrow>
                  \<bar>rider.average_rating (riders w' ! p)
                     - (rider.average_rating (riders w ! p)
                          * (of_nat (rider.total_ratings (riders w' ! p)) - 1) + of_int score)
                       / of_nat (rider.total_ratings (riders w' ! p))\<bar> \<le> 1 / 2 ^ 28)))
       \<and> (py_int arg = Inl ValueError
            \<or> (\<exists>score. py_int arg = Inr score \<and> (score < 1 \<or> 5 < score)) \<longrightarrow>
            rate_driver w rater rd arg = Returns False w
          \<and> rate_rider w rater' rd arg = Returns False w)
       \<and> (driver.average_rating (drivers w ! d) = 0 \<and> driver.total_ratings (drivers w ! d) = 0 \<longrightarrow>
           (\<exists>w1 w2 w3. rate_driver w rater rd (ArgInt 5) = Returns True w1
              \<and> rate_driver w1 rater rd (ArgInt 3) = Returns True w2
              \<and> rate_driver w2 rater rd (ArgInt 4) = Returns True w3
              \<and> driver.average_rating (drivers w3 ! d) = 4
              \<and> driver.total_ratings (drivers w3 ! d) = 3))"
proof (intro conjI allI impI)
  fix score
  assume s: "py_int arg = Inr score \<and> 1 \<le> score \<and> score \<le> 5"
  let ?a = "driver.average_rating (drivers w ! d)"
  let ?n = "driver.total_ratings (drivers w ! d)"
  let ?w' = "w\<lparr>rides := (rides w)[rd := (rides w ! rd)\<lparr>rating := Some score\<rparr>],
              drivers := (drivers w)[d := (drivers w ! d)
                \<lparr>driver.total_ratings := ?n + 1,
                  driver.average_rating := running_mean ?a (?n + 1) score\<rparr>]\<rparr>"
  have eq: "rate_driver w rater rd arg = Returns True ?w'"
    using s assms by (intro rate_driver_accepts) simp_all
  have t: "driver.total_ratings (drivers ?w' ! d) = ?n + 1"
    and av: "driver.average_rating (drivers ?w' ! d) = running_mean ?a (?n + 1) score"
    using assms by simp_all
  have av': "driver.average_rating (drivers ?w' ! d)
      = running_mean ?a (driver.total_ratings (drivers ?w' ! d)) score"
    unfolding t by (rule av)
  have near: "0 \<le> ?a \<and> ?a \<le> 5 \<and> ?n < 2 ^ 20 \<longrightarrow>
      \<bar>driver.average_rating (drivers ?w' ! d)
         - (?a * (of_nat (driver.total_ratings (drivers ?w' ! d)) - 1) + of_int score)
           / of_nat (driver.total_ratings (drivers ?w' ! d))\<bar> \<le> 1 / 2 ^ 28"
    unfolding t av
  proof
    assume h: "0 \<le> ?a \<and> ?a \<le> 5 \<and> ?n < 2 ^ 20"
    show "\<bar>running_mean ?a (?n + 1) score
         - (?a * (of_nat (?n + 1) - 1) + of_int score) / of_nat (?n + 1)\<bar> \<le> 1 / 2 ^ 28"
      by (rule running_mean_near) (use s h in simp_all)
  qed
  from eq t av' near
  show "\<exists>w'. rate_driver w rater rd arg = Returns True w'
              \<and> driver.total_ratings (drivers w' ! d) = ?n + 1
              \<and> driver.average_rating (drivers w' ! d) =
                  running_mean ?a (driver.total_ratings (drivers w' ! d)) score
              \<and> (0 \<le> ?a \<and> ?a \<le> 5 \<and> ?n < 2 ^ 20 \<longrightarrow>
                  \<bar>driver.average_rating (drivers w' ! d)
                     - (?a * (of_nat (driver.total_ratings (drivers w' ! d)) - 1) + of_int score)
                       / of_nat (driver.total_ratings (drivers w' ! d))\<bar> \<le> 1 / 2 ^ 28)"
    by blast
  let ?b = "rider.average_rating (riders w ! p)"
  let ?m = "rider.total_ratings (riders w ! p)"
  let ?v' = "w\<lparr>riders := (riders w)[p := (riders w ! p)
                \<lparr>rider.total_ratings := ?m + 1,
                  rider.average_rating := running_mean ?b (?m + 1) score\<rparr>]\<rparr>"
  have eq2: "rate_rider w rater' rd arg = Returns True ?v'"
    using s assms by (intro rate_rider_accepts) simp_all
  have t2: "rider.total_ratings (riders ?v' ! p) = ?m + 1"
    and av2: "rider.average_rating (riders ?v' ! p) = running_mean ?b (?m + 1) score"
    using assms by simp_all
  have av2': "rider.average_rating (riders ?v' ! p)
      = running_mean ?b (rider.total_ratings (riders ?v' ! p)) score"
    unfolding t2 by (rule av2)
  have near2: "0 \<le> ?b \<and> ?b \<le> 5 \<and> ?m < 2 ^ 20 \<longrightarrow>
      \<bar>rider.average_rating (riders ?v' ! p)
         - (?b * (of_nat (rider.total_ratings (riders ?v' ! p)) - 1) + of_int score)
           / of_nat (rider.total_ratings (riders ?v' ! p))\<bar> \<le> 1 / 2 ^ 28"
    unfolding t2 av2
  proof
    assume h: "0 \<le> ?b \<and> ?b \<le> 5 \<and> ?m < 2 ^ 20"
    show "\<bar>running_mean ?b (?m + 1) score
         - (?b * (of_nat (?m + 1) - 1) + of_int score) / of_nat (?m + 1)\<bar> \<le> 1 / 2 ^ 28"
      by (rule running_mean_near) (use s h in simp_all)
  qed
  from eq2 t2 av2' near2
  show "\<exists>w'. rate_rider w rater' rd arg = Returns True w'
              \<and> rider.total_ratings (riders w' ! p) = ?m + 1
              \<and> rider.average_rating (riders w' ! p) =
                  running_mean ?b (rider.total_ratings (riders w' ! p)) score
              \<and> (0 \<le> ?b \<and> ?b \<le> 5 \<and> ?m < 2 ^ 20 \<longrightarrow>
                  \<bar>rider.average_rating (riders w' ! p)
                     - (?b * (of_nat (rider.total_ratings (riders w' ! p)) - 1) + of_int score)
                       / of_nat (rider.total_ratings (riders w' ! p))\<bar> \<le> 1 / 2 ^ 28)"
    by blast
next
  assume r: "py_int arg = Inl ValueError
            \<or> (\<exists>score. py_int arg = Inr score \<and> (score < 1 \<or> 5 < score))"
  show "rate_driver w rater rd arg = Returns False w"
    and "rate_rider w rater' rd arg = Returns False w"
    using rating_refused [OF r] by simp_all
next
  assume fresh: "driver.average_rating (drivers w ! d) = 0 \<and> driver.total_ratings (drivers w ! d) = 0"
  show "\<exists>w1 w2 w3. rate_driver w rater rd (ArgInt 5) = Returns True w1
              \<and> rate_driver w1 rater rd (ArgInt 3) = Returns True w2
              \<and> rate_driver w2 rater rd (ArgInt 4) = Returns True w3
              \<and> driver.average_rating (drivers w3 ! d) = 4
              \<and> driver.total_ratings (drivers w3 ! d) = 3"
    using fresh assms running_mean_5_3_4
    by (simp add: rate_driver_accepts [where d = d] numeral_2_eq_2 numeral_3_eq_3)
qed

theorem rating_updates_running_mean_witness:
  "(\<exists>w1 w2 w3. rate_driver riding 0 0 (ArgInt 5) = Returns True w1
      \<and> rate_driver w1 0 0 (ArgInt 3) = Returns True w2
      \<and> rate_driver w2 0 0 (ArgInt 4) = Returns True w3
      \<and> driver.average_rating (drivers w3 ! 0) = 4
      \<and> driver.total_ratings (drivers w3 ! 0) = 3)
   \<and> rate_driver riding 0 0 (ArgInt 6) = Returns False riding
   \<and> rate_rider riding 0 0 (ArgInt 0) = Returns False riding
   \<and> rate_driver riding 0 0 (ArgStr ''five'') = Returns False riding"
proof -
  have a: "0 < length (rides riding)" "ride.driver (rides riding ! 0) = Some 0"
    "0 < length (drivers riding)" "ride.rider (rides riding ! 0) = Some 0"
    "0 < length (riders riding)"
    by (simp_all add: riding_def)
  have fresh: "driver.average_rating (drivers riding ! 0) = 0
      \<and> driver.total_ratings (drivers riding ! 0) = 0"
    by (simp add: riding_def Driver_init_def)
  have h6: "py_int (ArgInt 6) = Inl ValueError
      \<or> (\<exists>score. py_int (ArgInt 6) = Inr score \<and> (score < 1 \<or> 5 < score))"
    and h0: "py_int (ArgInt 0) = Inl ValueError
      \<or> (\<exists>score. py_int (ArgInt 0) = Inr score \<and> (score < 1 \<or> 5 < score))"
    by simp_all
  have "py_int (ArgStr ''five'') = Inl ValueError" by code_simp
  then have hs: "py_int (ArgStr ''five'') = Inl ValueError
      \<or> (\<exists>score. py_int (ArgStr ''five'') = Inr score \<and> (score < 1 \<or> 5 < score))"
    by blast
  note T = rating_updates_running_mean [OF a]
  from T [where arg = "ArgInt 6" and rater = 0] fresh
  have seq: "\<exists>w1 w2 w3. rate_driver riding 0 0 (ArgInt 5) = Returns True w1
      \<and> rate_driver w1 0 0 (ArgInt 3) = Returns True w2
      \<and> rate_driver w2 0 0 (ArgInt 4) = Returns True w3
      \<and> driver.average_rating (drivers w3 ! 0) = 4
      \<and> driver.total_ratings (drivers w3 ! 0) = 3"
    by blast
  from T [where arg = "ArgInt 6" and rater = 0] h6
  have r6: "rate_driver riding 0 0 (ArgInt 6) = Returns False riding" by blast
  from T [where arg = "ArgInt 0" and rater' = 0] h0
  have r0: "rate_rider riding 0 0 (ArgInt 0) = Returns False riding" by blast
  from T [where arg = "ArgStr ''five''" and rater = 0] hs
  have rs: "rate_driver riding 0 0 (ArgStr ''five'') = Returns False riding" by blast
  from seq r6 r0 rs show ?thesis by blast
qed

text \<open>
  C7, as written, fails on a rating that is no whole number: 5.9 (the double nearest
  to it) is above 5, but it is truncated to 5 before the range is checked, so the
  driver of \<open>riding\<close> is rated and counted.
\<close>

theorem truncated_rating_counterexample:
  "5 < fl (59 / 10)
   \<and> rate_driver riding 0 0 (ArgFloat (fl (59 / 10)))
      = Returns True
          (riding\<lparr>rides := [(rides riding ! 0)\<lparr>rating := Some 5\<rparr>],
             drivers := [(drivers riding ! 0)
               \<lparr>driver.average_rating := 5, driver.total_ratings := 1\<rparr>]\<rparr>)"
proof -
  have g: "5 < fl (59 / 10)" by code_simp
  have c: "py_int (ArgFloat (fl (59 / 10))) = Inr 5" by code_simp
  have m: "running_mean 0 (Suc 0) 5 = 5" by code_simp
  have "rate_driver riding 0 0 (ArgFloat (fl (59 / 10)))
      = Returns True
          (riding\<lparr>rides := [(rides riding ! 0)\<lparr>rating := Some 5\<rparr>],
             drivers := [(drivers riding ! 0)
               \<lparr>driver.average_rating := 5, driver.total_ratings := 1\<rparr>]\<rparr>)"
    by (simp add: rate_driver_def c upd_ride_def upd_driver_def riding_def Rider_init_def
        Driver_init_def Let_def m del: py_int.simps)
  with g show ?thesis by simp
qed

section \<open>Properties of matching\<close>

lemma max_from_split:
  "\<exists>ys zs. b # xs = ys @ max_from key b xs # zs
      \<and> (\<forall>y\<in>set ys. key y < key (max_from key b xs))
      \<and> (\<forall>z\<in>set zs. key z \<le> key (max_from key b xs))"
proof (induction xs arbitrary: b)
  case Nil
  show ?case by (intro exI [of _ "[]"]) simp
next
  case (Cons x xs)
  show ?case
  proof (cases "key b < key x")
    case True
    from Cons.IH [of x] obtain ys zs where
      s: "x # xs = ys @ max_from key x xs # zs"
      and l: "\<forall>y\<in>set ys. key y < key (max_from key x xs)"
      and r: "\<forall>z\<in>set zs. key z \<le> key (max_from key x xs)"
      by blast
    have "x \<in> set (ys @ max_from key x xs # zs)" using s by (metis list.set_intros(1))
    with l r have "key x \<le> key (max_from key x xs)" by auto
    with True have bm: "key b < key (max_from key x xs)" by simp
    have eq: "max_from key b (x # xs) = max_from key x xs" using True by simp
    have "b # x # xs = (b # ys) @ max_from key x xs # zs" using s by simp
    with l r bm have "b # x # xs = (b # ys) @ max_from key x xs # zs
        \<and> (\<forall>y\<in>set (b # ys). key y < key (max_from key x xs))
        \<and> (\<forall>z\<in>set zs. key z \<le> key (max_from key x xs))"
      by simp
    then show ?thesis unfolding eq by blast
  next
    case False
    from Cons.IH [of b] obtain ys zs where
      s: "b # xs = ys @ max_from key b xs # zs"
      and l: "\<forall>y\<in>set ys. key y < key (max_from key b xs)"
      and r: "\<forall>z\<in>set zs. key z \<le> key (max_from key b xs)"
      by blast
    have eq: "max_from key b (x # xs) = max_from key b xs" using False by simp
    show ?thesis
    proof (cases ys)
      case Nil
      from s have "b # xs = max_from key b xs # zs"
        unfolding Nil by (simp only: append_Nil)
      then have m': "b = max_from key b xs" and z': "xs = zs" by blast+
      note m = m' [symmetric] and z = z' [symmetric]
      have "b # x # xs = [] @ b # (x # xs)" by simp
      moreover have "\<forall>z\<in>set (x # xs). key z \<le> key b"
        using False r m z by (simp add: not_less)
      ultimately have "b # x # xs = [] @ b # (x # xs)
        \<and> (\<forall>y\<in>set []. key y < key b)
        \<and> (\<forall>z\<in>set (x # xs). key z \<le> key b)"
        by simp
      then show ?thesis unfolding eq m by blast
    next
      case (Cons y ys')
      from s have "b # xs = y # (ys' @ max_from key b xs # zs)"
        unfolding Cons by (simp only: append_Cons)
      then have y: "y = b" and t: "xs = ys' @ max_from key b xs # zs" by blast+
      from l Cons y have bm: "key b < key (max_from key b xs)" by simp
      with False have xm: "key x < key (max_from key b xs)" by simp
      have "b # x # xs = (b # x # ys') @ max_from key b xs # zs"
        using t by simp
      moreover have "\<forall>y\<in>set (b # x # ys'). key y < key (max_from key b xs)"
        using bm xm l Cons by simp
      ultimately have "b # x # xs = (b # x # ys') @ max_from key b xs # zs
        \<and> (\<forall>y\<in>set (b # x # ys'). key y < key (max_from key b xs))
        \<and> (\<forall>z\<in>set zs. key z \<le> key (max_from key b xs))"
        using r by blast
      then show ?thesis unfolding eq by blast
    qed
  qed
qed

lemma max_from_first_greatest:
  assumes "sorted (b # xs)" and "distinct (b # xs)"
  shows "max_from key b xs \<in> set (b # xs)
    \<and> (\<forall>j\<in>set (b # xs). key j \<le> key (max_from key b xs)
          \<and> (j < max_from key b xs \<longrightarrow> key j < key (max_from key b xs)))"
proof -
  let ?m = "max_from key b xs"
  from max_from_split [of b xs key] obtain ys zs where
    s: "b # xs = ys @ ?m # zs"
    and l: "\<forall>y\<in>set ys. key y < key ?m"
    and r: "\<forall>z\<in>set zs. key z \<le> key ?m"
    by blast
  have mem: "?m \<in> set (b # xs)" by (subst s) simp
  have srt: "sorted (ys @ ?m # zs)" and dst: "distinct (ys @ ?m # zs)"
    using assms s by simp_all
  have "key j \<le> key ?m \<and> (j < ?m \<longrightarrow> key j < key ?m)" if "j \<in> set (b # xs)" for j
  proof -
    from that s have "j \<in> set ys \<or> j = ?m \<or> j \<in> set zs" by (metis Un_iff set_ConsD set_append)
    then show ?thesis
    proof (elim disjE)
      assume "j \<in> set ys" with l show ?thesis by auto
    next
      assume "j = ?m" then show ?thesis by simp
    next
      assume z: "j \<in> set zs"
      with srt have "?m \<le> j" by (auto simp: sorted_append)
      with z r show ?thesis by auto
    qed
  qed
  with mem show ?thesis by blast
qed


lemma RideMatching_init_props:
  "set (RideMatching_init ds) = {i. i < length ds \<and> is_available (ds ! i)}"
  "sorted (RideMatching_init ds)" "distinct (RideMatching_init ds)"
  by (auto simp: RideMatching_init_def intro: sorted_wrt_filter)

lemma accept_ride_effect:
  assumes "rd < length (rides w)" and "d < length (drivers w)"
  shows "rides (accept_ride w d rd now)
           = (rides w)[rd := (rides w ! rd)\<lparr>start_time := Some now, ride.driver := Some d\<rparr>]"
    and "drivers (accept_ride w d rd now)
           = (drivers w)[d := (drivers w ! d)\<lparr>is_available := False\<rparr>]"
    and "riders (accept_ride w d rd now) = riders w"
  using assms by (simp_all add: accept_ride_def start_ride_def set_driver_def Let_def)

text \<open>
  C2. Matching over the registered drivers, whose vehicle types are stored in lower
  case (as \<^verbatim>\<open>Car\<close>, \<^verbatim>\<open>Bike\<close> and \<^verbatim>\<open>CNG\<close> store them), never raises. When it
  returns no ride, nothing has changed and no driver is suitable (available, with a
  vehicle of the requested type compared without regard to case). When it returns a
  ride, the ride is bound to a suitable driver and carries that driver's vehicle, no
  suitable driver has a higher average rating, every suitable driver earlier in the
  list has a strictly lower one, and the chosen driver is no longer available.
\<close>

theorem matching_selects_best_suitable:
  assumes lc: "\<forall>d\<in>set (drivers w). \<forall>v. driver.vehicle d = Some v \<longrightarrow>
                 lower (vehicle_type v) = vehicle_type v"
  shows "case find_driver w (RideMatching_init (drivers w)) req vtype entropy now of
      Raises e w' \<Rightarrow> False
    | Returns None w' \<Rightarrow> w' = w \<and> (\<forall>d\<in>set (drivers w). \<not> spec_suitable vtype d)
    | Returns (Some rd) w' \<Rightarrow>
        (\<exists>i<length (drivers w).
            rd < length (rides w') \<and> ride.driver (rides w' ! rd) = Some i
          \<and> ride.vehicle (rides w' ! rd) = driver.vehicle (drivers w ! i)
          \<and> spec_suitable vtype (drivers w ! i)
          \<and> \<not> is_available (drivers w' ! i)
          \<and> (\<forall>j<length (drivers w). spec_suitable vtype (drivers w ! j) \<longrightarrow>
                driver.average_rating (drivers w ! j) \<le> driver.average_rating (drivers w ! i)
              \<and> (j < i \<longrightarrow> driver.average_rating (drivers w ! j)
                             < driver.average_rating (drivers w ! i))))"
proof -
  let ?ds = "drivers w"
  let ?key = "\<lambda>j. driver.average_rating (?ds ! j)"
  define P where "P = (\<lambda>i. case driver.vehicle (?ds ! i) of
                       None \<Rightarrow> False
                     | Some v \<Rightarrow> vehicle_type v = lower vtype)"
  define S where "S = filter P (RideMatching_init ?ds)"
  have P_iff: "is_available (?ds ! i) \<and> P i \<longleftrightarrow> spec_suitable vtype (?ds ! i)"
    if "i < length ?ds" for i
  proof (cases "driver.vehicle (?ds ! i)")
    case None
    then show ?thesis by (simp add: P_def spec_suitable_def)
  next
    case (Some v)
    from that have "?ds ! i \<in> set ?ds" by simp
    with lc Some have "lower (vehicle_type v) = vehicle_type v" by blast
    with Some show ?thesis by (auto simp: P_def spec_suitable_def)
  qed
  have S_set: "set S = {i. i < length ?ds \<and> spec_suitable vtype (?ds ! i)}"
    using P_iff by (auto simp: S_def RideMatching_init_props(1))
  have S_sorted: "sorted S" and S_distinct: "distinct S"
    by (simp_all add: S_def RideMatching_init_props sorted_wrt_filter)
  have S_Nil: "S = []" if "RideMatching_init ?ds = []"
    using that by (simp add: S_def)
  show ?thesis
  proof (cases S)
    case Nil
    have none: "\<forall>d\<in>set ?ds. \<not> spec_suitable vtype d"
    proof
      fix d assume "d \<in> set ?ds"
      then obtain i where "i < length ?ds" "d = ?ds ! i" by (auto simp: in_set_conv_nth)
      with S_set Nil show "\<not> spec_suitable vtype d" by auto
    qed
    have "find_driver w (RideMatching_init ?ds) req vtype entropy now = Returns None w"
      using Nil by (simp add: find_driver_def Let_def S_def P_def)
    with none show ?thesis by simp
  next
    case (Cons i0 rest)
    define best where "best = max_from ?key i0 rest"
    from max_from_first_greatest [of i0 rest ?key] S_sorted S_distinct Cons
    have mem: "best \<in> set S"
      and mx: "\<forall>j\<in>set S. ?key j \<le> ?key best \<and> (j < best \<longrightarrow> ?key j < ?key best)"
      by (simp_all add: best_def)
    from mem S_set have bl: "best < length ?ds" and bs: "spec_suitable vtype (?ds ! best)"
      by simp_all
    from bs obtain v where v: "driver.vehicle (?ds ! best) = Some v"
      by (auto simp: spec_suitable_def split: option.splits)
    define fare where "fare = val (py_round2 (num_add (PyInt 50)
        (num_mul (PyInt (randint 5 25 entropy)) (rate v))))"
    define r where "r = \<lparr>start_location = rider.current_location (riders w ! RideRequest.rider req),
         end_location = RideRequest.end_location req,
         driver = None, rider = None, start_time = None, end_time = None,
         vehicle = Some v, distance = PyInt (randint 5 25 entropy), estimated_fare = fare,
         is_completed = False, is_cancelled = False,
         cancellation_fee = CANCELLATION_FEE, rating = None\<rparr>"
    define w1 where "w1 = w\<lparr>rides := rides w @ [r]\<rparr>"
    define w' where "w' = accept_ride w1 best (length (rides w)) now"
    have ne: "RideMatching_init ?ds \<noteq> []" using S_Nil Cons by auto
    have fd: "find_driver w (RideMatching_init ?ds) req vtype entropy now
               = Returns (Some (length (rides w))) w'"
      using ne Cons v
      by (simp add: find_driver_def Let_def S_def [symmetric] P_def [symmetric]
          best_def [symmetric] Ride_init_def calculate_fare_def r_def fare_def w1_def w'_def)
    have len1: "length (rides w) < length (rides w1)" and dl1: "best < length (drivers w1)"
      and d1: "drivers w1 = ?ds"
      using bl by (simp_all add: w1_def)
    note eff = accept_ride_effect [OF len1 dl1, of now, folded w'_def]
    have a: "length (rides w) < length (rides w')" using eff(1) len1 by simp
    have b: "ride.driver (rides w' ! length (rides w)) = Some best"
      using eff(1) len1 by simp
    have c: "ride.vehicle (rides w' ! length (rides w)) = driver.vehicle (?ds ! best)"
      using eff(1) len1 v by (simp add: w1_def r_def)
    have d: "\<not> is_available (drivers w' ! best)"
      using eff(2) bl d1 by simp
    have e: "\<forall>j<length ?ds. spec_suitable vtype (?ds ! j) \<longrightarrow>
                ?key j \<le> ?key best \<and> (j < best \<longrightarrow> ?key j < ?key best)"
      using mx S_set by simp
    from a b c d e bl bs have "\<exists>i<length ?ds.
            length (rides w) < length (rides w') \<and> ride.driver (rides w' ! length (rides w)) = Some i
          \<and> ride.vehicle (rides w' ! length (rides w)) = driver.vehicle (?ds ! i)
          \<and> spec_suitable vtype (?ds ! i)
          \<and> \<not> is_available (drivers w' ! i)
          \<and> (\<forall>j<length ?ds. spec_suitable vtype (?ds ! j) \<longrightarrow>
                ?key j \<le> ?key i \<and> (j < i \<longrightarrow> ?key j < ?key i))"
      by blast
    with fd show ?thesis by simp
  qed
qed

theorem matching_selects_best_suitable_witness:
  "\<exists>w'. find_driver pool (RideMatching_init (drivers pool))
          \<lparr>RideRequest.rider = 0, end_location = ''Gulshan''\<rparr> ''CAR'' 5 100 = Returns (Some 0) w'
       \<and> ride.driver (rides w' ! 0) = Some 1
       \<and> spec_suitable ''CAR'' (drivers pool ! 1)
       \<and> \<not> is_available (drivers w' ! 1)"
proof -
  let ?req = "\<lparr>RideRequest.rider = 0, end_location = ''Gulshan''\<rparr>"
  let ?avg = "\<lambda>j. driver.average_rating (drivers pool ! j)"
  have lc: "\<forall>d\<in>set (drivers pool). \<forall>v. driver.vehicle d = Some v \<longrightarrow>
       lower (vehicle_type v) = vehicle_type v"
    by (simp add: pool_def Driver_init_def Car_def Bike_def lower_def lower_char_def)
  have lo: "lower ''CAR'' = ''car''"
    by code_simp
  have lcar: "lower ''car'' = ''car''" and lbike: "lower ''bike'' = ''bike''"
    by code_simp+
  have len: "length (drivers pool) = 4"
    by (simp add: pool_def)
  have s0: "\<not> spec_suitable ''CAR'' (drivers pool ! 0)"
    and s1: "spec_suitable ''CAR'' (drivers pool ! 1)"
    and s3: "\<not> spec_suitable ''CAR'' (drivers pool ! 3)"
    by (simp_all add: spec_suitable_def lo lcar lbike pool_def Driver_init_def Car_def Bike_def)
  have tie: "?avg 1 = ?avg 2"
    by (simp add: pool_def Driver_init_def)
  have some: "\<exists>rd w'. find_driver pool (RideMatching_init (drivers pool)) ?req ''CAR'' 5 100
      = Returns (Some rd) w' \<and> rd = length (rides pool)"
    by (simp add: find_driver_def RideMatching_init_def lo pool_def Driver_init_def
        Rider_init_def Car_def Bike_def Ride_init_def calculate_fare_def Let_def upt_rec)
  then obtain w' where
    fd: "find_driver pool (RideMatching_init (drivers pool)) ?req ''CAR'' 5 100
      = Returns (Some 0) w'"
    by (auto simp: pool_def)
  from matching_selects_best_suitable [OF lc,
        where req = ?req and vtype = "''CAR''" and entropy = 5 and now = 100] fd
  obtain i where il: "i < length (drivers pool)"
    and drv: "ride.driver (rides w' ! 0) = Some i"
    and su: "spec_suitable ''CAR'' (drivers pool ! i)"
    and na: "\<not> is_available (drivers w' ! i)"
    and mx: "\<forall>j<length (drivers pool). spec_suitable ''CAR'' (drivers pool ! j) \<longrightarrow>
                ?avg j \<le> ?avg i \<and> (j < i \<longrightarrow> ?avg j < ?avg i)"
    by auto
  from il len have "i = 0 \<or> i = 1 \<or> i = 2 \<or> i = 3" by arith
  moreover have "i \<noteq> 0"
  proof
    assume "i = 0"
    with su s0 show False by simp
  qed
  moreover have "i \<noteq> 3"
  proof
    assume "i = 3"
    with su s3 show False by simp
  qed
  moreover have "i \<noteq> 2"
  proof
    assume "i = 2"
    with mx s1 len have "?avg 1 < ?avg 2" by simp
    with tie show False by simp
  qed
  ultimately have "i = 1" by blast
  with drv na fd s1 show ?thesis by blast
qed

section \<open>Properties of the registry queries\<close>

lemma sorted_reverse_descending:
  "sorted_wrt (\<lambda>i j. key j \<le> key i) (sorted_reverse key xs)"
proof -
  have "sorted (map key (sort_key key (rev xs)))" by (rule sorted_sort_key)
  then have "sorted_wrt (\<lambda>i j. key i \<le> key j) (sort_key key (rev xs))"
    by (simp add: sorted_map)
  then show ?thesis
    by (simp add: sorted_reverse_def sorted_wrt_rev)
qed

lemma sorted_reverse_set: "set (sorted_reverse key xs) = set xs"
  by (simp add: sorted_reverse_def)

lemma sorted_reverse_distinct: "distinct (sorted_reverse key xs) = distinct xs"
  by (simp add: sorted_reverse_def)

text \<open>
  C8. For a limit that is not negative, \<^verbatim>\<open>get_top_rated_drivers\<close> returns the first
  \<open>limit\<close> entries of a list that holds exactly the drivers with
  \<open>total_ratings > 0\<close>, each once, in descending lexicographic order of
  (\<open>average_rating\<close>, \<open>total_rides\<close>). Over the drivers rated 4.5 with 10 rides,
  4.8 with 15 rides and 4.2 with 8 rides, a limit of 2 gives the 4.8 driver, then
  the 4.5 driver.
\<close>

theorem top_rated_is_sorted_prefix:
  assumes "0 \<le> limit"
  shows "(\<exists>L. get_top_rated_drivers ds limit = take (nat limit) L
           \<and> set L = {i. i < length ds \<and> 0 < driver.total_ratings (ds ! i)}
           \<and> distinct L
           \<and> sorted_wrt (\<lambda>i j.
                 driver.average_rating (ds ! j) < driver.average_rating (ds ! i)
               \<or> (driver.average_rating (ds ! j) = driver.average_rating (ds ! i)
                  \<and> driver.total_rides (ds ! j) \<le> driver.total_rides (ds ! i))) L)
       \<and> get_top_rated_drivers rated_trio 2 = [1, 0]"
proof
  let ?key = "\<lambda>i. (driver.average_rating (ds ! i), driver.total_rides (ds ! i))"
  let ?rated = "filter (\<lambda>i. 0 < driver.total_ratings (ds ! i)) [0..<length ds]"
  let ?L = "sorted_reverse ?key ?rated"
  have nil: "sorted_reverse k [] = []" for k :: "nat \<Rightarrow> rat \<times> nat"
    by (simp add: sorted_reverse_def)
  have "get_top_rated_drivers ds limit = slice_to limit ?L"
    by (simp add: get_top_rated_drivers_def Let_def nil slice_to_def)
  with assms have r: "get_top_rated_drivers ds limit = take (nat limit) ?L"
    by (simp add: slice_to_def)
  have s: "set ?L = {i. i < length ds \<and> 0 < driver.total_ratings (ds ! i)}"
    by (auto simp: sorted_reverse_set)
  have d: "distinct ?L" by (simp add: sorted_reverse_distinct)
  have "sorted_wrt (\<lambda>i j. ?key j \<le> ?key i) ?L" by (rule sorted_reverse_descending)
  then have o: "sorted_wrt (\<lambda>i j.
                 driver.average_rating (ds ! j) < driver.average_rating (ds ! i)
               \<or> (driver.average_rating (ds ! j) = driver.average_rating (ds ! i)
                  \<and> driver.total_rides (ds ! j) \<le> driver.total_rides (ds ! i))) ?L"
    by (rule sorted_wrt_mono_rel [rotated]) auto
  from r s d o show "\<exists>L. get_top_rated_drivers ds limit = take (nat limit) L
           \<and> set L = {i. i < length ds \<and> 0 < driver.total_ratings (ds ! i)}
           \<and> distinct L
           \<and> sorted_wrt (\<lambda>i j.
                 driver.average_rating (ds ! j) < driver.average_rating (ds ! i)
               \<or> (driver.average_rating (ds ! j) = driver.average_rating (ds ! i)
                  \<and> driver.total_rides (ds ! j) \<le> driver.total_rides (ds ! i))) L"
    by blast
  show "get_top_rated_drivers rated_trio 2 = [1, 0]"
    by code_simp
qed

theorem top_rated_is_sorted_prefix_witness:
  "(0::int) \<le> 1 \<and> get_top_rated_drivers rated_trio 1 = [1]"
proof -
  have h: "(0::int) \<le> 1" by simp
  have len: "length rated_trio = 3" by (simp add: rated_trio_def)
  have r: "0 < driver.total_ratings (rated_trio ! 0)" "0 < driver.total_ratings (rated_trio ! 1)"
    "0 < driver.total_ratings (rated_trio ! 2)"
    by (simp_all add: rated_trio_def)
  have k: "driver.average_rating (rated_trio ! 0) < driver.average_rating (rated_trio ! 1)"
    "driver.average_rating (rated_trio ! 2) < driver.average_rating (rated_trio ! 1)"
    by (simp_all add: rated_trio_def)
  from top_rated_is_sorted_prefix [OF h, of rated_trio] obtain L where
    res: "get_top_rated_drivers rated_trio 1 = take (nat 1) L"
    and st: "set L = {i. i < length rated_trio \<and> 0 < driver.total_ratings (rated_trio ! i)}"
    and srt: "sorted_wrt (\<lambda>i j.
                 driver.average_rating (rated_trio ! j) < driver.average_rating (rated_trio ! i)
               \<or> (driver.average_rating (rated_trio ! j) = driver.average_rating (rated_trio ! i)
                  \<and> driver.total_rides (rated_trio ! j) \<le> driver.total_rides (rated_trio ! i))) L"
    by blast
  from st len r have one: "1 \<in> set L" by simp
  then obtain x xs where L: "L = x # xs" by (cases L) auto
  have "x = 1"
  proof (rule ccontr)
    assume ne: "x \<noteq> 1"
    with one L have in_xs: "1 \<in> set xs" by auto
    from st L len have "x < 3" by auto
    with ne have x: "x = 0 \<or> x = 2" by arith
    from srt L in_xs have
      "driver.average_rating (rated_trio ! 1) < driver.average_rating (rated_trio ! x)
       \<or> driver.average_rating (rated_trio ! 1) = driver.average_rating (rated_trio ! x)"
      by auto
    with x k show False by auto
  qed
  with res L h show ?thesis by simp
qed

section \<open>Where the code departs from the specification\<close>

text \<open>
  C9. The claim as written fails at a concrete call: constructing a ride from
  Dhanmondi to Gulshan over 10 km with no vehicle does not report invalid input; the
  exception \<^verbatim>\<open>AttributeError\<close> leaves the constructor.
\<close>

theorem absent_vehicle_counterexample:
  "Ride_init ''Dhanmondi'' ''Gulshan'' None (Some (PyInt 10)) 0 = Inl AttributeError"
  by (simp add: Ride_init_def calculate_fare_def)

text \<open>
  C4. A rider with 100 in the wallet requests a car; the best available car driver
  (index 1, rate 30) is matched for 10 km, fare 350. \<^verbatim>\<open>request_ride\<close> reports no
  ride and leaves the rider without a current ride, but the matched driver, who was
  available before, stays unavailable, bound to a ride that nobody holds.
\<close>

theorem insufficient_funds_strands_driver:
  "\<exists>w'. request_ride pool 0 ''Gulshan'' ''car'' 5 100 = Returns None w'
     \<and> current_ride (riders w' ! 0) = None
     \<and> wallet (riders w' ! 0) = 100
     \<and> estimated_fare (rides w' ! 0) = 350
     \<and> ride.driver (rides w' ! 0) = Some 1
     \<and> ride.rider (rides w' ! 0) = None
     \<and> is_available (drivers pool ! 1)
     \<and> \<not> is_available (drivers w' ! 1)"
proof -
  have lo: "lower ''car'' = ''car''" by code_simp
  have rd: "randint 5 25 5 = 10" by (simp add: randint_def)
  show ?thesis
    by (simp add: request_ride_def find_driver_def RideMatching_init_def accept_ride_def
        start_ride_def set_driver_def lo rd pool_def Driver_init_def Rider_init_def
        Car_def Bike_def Ride_init_def calculate_fare_def Let_def upt_rec)
qed

text \<open>
  C5. The ride of \<open>riding\<close> is cancelled by the rider, who pays the fee of 20; the
  rider's \<^verbatim>\<open>current_ride\<close> still refers to it. A second cancellation is refused and
  changes nothing. Completing the cancelled ride is not refused: the rider pays the
  full fare of 250 on top of the fee, the driver is credited, the driver's
  \<^verbatim>\<open>total_rides\<close> is incremented and the ride is both cancelled and completed.
\<close>

theorem cancelled_ride_can_be_completed:
  "\<exists>w1 w2. cancel_ride riding 0 ''rider'' 130 = Returns None w1
     \<and> is_cancelled (rides w1 ! 0)
     \<and> current_ride (riders w1 ! 0) = Some 0
     \<and> wallet (riders w1 ! 0) = 980 \<and> wallet (drivers w1 ! 0) = 20
     \<and> cancel_ride w1 0 ''rider'' 140 = Returns (Some False) w1
     \<and> reach_destination w1 0 0 160 = Returns () w2
     \<and> is_cancelled (rides w2 ! 0) \<and> is_completed (rides w2 ! 0)
     \<and> wallet (riders w2 ! 0) = 730 \<and> wallet (drivers w2 ! 0) = 270
     \<and> driver.total_rides (drivers w2 ! 0) = 1
     \<and> rider.ride_history (riders w2 ! 0) = [0]"
  by (simp add: cancel_ride_def reach_destination_def end_ride_def riding_def
      Driver_init_def Rider_init_def CANCELLATION_FEE_def Let_def)

end
